theory Spec2Isabelle
  imports Complex_Main "HOL-Library.Char_ord" "HOL-Library.List_Lexorder" "HOL-Library.AList"
    "HOL-Library.Word"
begin

section \<open>Python strings\<close>

text \<open>
  Strings are lists of characters. The model covers ASCII text: \<open>str.upper\<close>,
  \<open>str.lower\<close> and \<open>str.strip\<close> act on the ASCII letters and the ASCII
  whitespace characters, which is what feed names, symbols and addresses consist of.
\<close>

definition ascii_lowercase :: string where
  "ascii_lowercase = ''abcdefghijklmnopqrstuvwxyz''"

definition ascii_uppercase :: string where
  "ascii_uppercase = ''ABCDEFGHIJKLMNOPQRSTUVWXYZ''"

definition upper_char :: "char \<Rightarrow> char" where
  "upper_char c = (case map_of (zip ascii_lowercase ascii_uppercase) c of Some u \<Rightarrow> u | None \<Rightarrow> c)"

definition lower_char :: "char \<Rightarrow> char" where
  "lower_char c = (case map_of (zip ascii_uppercase ascii_lowercase) c of Some l \<Rightarrow> l | None \<Rightarrow> c)"

definition upper :: "string \<Rightarrow> string" where
  "upper s = map upper_char s"

definition lower :: "string \<Rightarrow> string" where
  "lower s = map lower_char s"

text \<open>The ASCII characters that \<open>str.isspace\<close> accepts, which \<open>str.strip\<close> removes
  from both ends: the space, the controls 0x09 to 0x0D and the separators 0x1C to 0x1F.\<close>

definition is_space :: "char \<Rightarrow> bool" where
  "is_space c \<longleftrightarrow>
     c \<in> set [CHR '' '', CHR 0x09, CHR 0x0A, CHR 0x0B, CHR 0x0C, CHR 0x0D,
                CHR 0x1C, CHR 0x1D, CHR 0x1E, CHR 0x1F]"

definition strip :: "string \<Rightarrow> string" where
  "strip s = rev (dropWhile is_space (rev (dropWhile is_space s)))"

text \<open>
  \<open>s.replace(old, new)\<close>: the occurrences of \<open>old\<close> are found from the left and do
  not overlap. With an empty \<open>old\<close> Python puts \<open>new\<close> before every character and
  at the end.
\<close>

fun replace_from :: "string \<Rightarrow> string \<Rightarrow> string \<Rightarrow> string" where
  "replace_from old new [] = []"
| "replace_from old new (c # cs) =
     (if take (length old) (c # cs) = old
      then new @ replace_from old new (drop (length old - 1) cs)
      else c # replace_from old new cs)"

definition replace :: "string \<Rightarrow> string \<Rightarrow> string \<Rightarrow> string" where
  "replace s old new =
     (if old = [] then new @ concat (map (\<lambda>c. c # new) s) else replace_from old new s)"

section \<open>Python numbers\<close>

text \<open>\<open>str(n)\<close> for an integer: its decimal digits, with a minus sign when negative.\<close>

definition digit_char :: "nat \<Rightarrow> char" where
  "digit_char d = ''0123456789'' ! d"

fun str_nat :: "nat \<Rightarrow> string" where
  "str_nat n = (if n < 10 then [digit_char n] else str_nat (n div 10) @ [digit_char (n mod 10)])"

declare str_nat.simps [simp del]

definition str_int :: "int \<Rightarrow> string" where
  "str_int i = (if i < 0 then CHR ''-'' # str_nat (nat (- i)) else str_nat (nat i))"

text \<open>
  Python's \<open>float\<close> is an IEEE 754 binary64 value: a finite one (kept as the rational it
  denotes), an infinity or a NaN. \<open>binary64\<close> rounds a rational to the nearest such
  value, ties to the even significand, with gradual underflow below \<open>2^-1022\<close>.
\<close>

datatype pyfloat = Finite rat | PosInf | NegInf | NaN

fun bitlen :: "nat \<Rightarrow> nat" where
  "bitlen n = (if n = 0 then 0 else Suc (bitlen (n div 2)))"

declare bitlen.simps [simp del]

definition pow2 :: "int \<Rightarrow> rat" where
  "pow2 e = (if 0 \<le> e then 2 ^ nat e else 1 / 2 ^ nat (- e))"

definition round_half_even :: "rat \<Rightarrow> int" where
  "round_half_even q =
     (let f = \<lfloor>q\<rfloor>; r = q - of_int f
      in if r < 1 / 2 then f else if 1 / 2 < r then f + 1 else if even f then f else f + 1)"

definition floor_log2 :: "rat \<Rightarrow> int" where
  "floor_log2 q =
     (let (a, b) = quotient_of q;
          k = int (bitlen (nat a)) - int (bitlen (nat b))
      in if pow2 k \<le> q then k else k - 1)"

definition binary64 :: "rat \<Rightarrow> pyfloat" where
  "binary64 q =
     (if q = 0 then Finite 0
      else let a = \<bar>q\<bar>;
               e = max (floor_log2 a) (- 1022);
               ulp = pow2 (e - 52);
               m = round_half_even (a / ulp);
               r = of_int m * ulp
           in if pow2 1024 \<le> r then (if 0 < q then PosInf else NegInf)
              else Finite (if 0 < q then r else - r))"

section \<open>Exceptions\<close>

text \<open>
  A raised exception is a value: its class and its message. \<open>Web3Error\<close> stands for
  whatever the RPC client, the contract layer or the ABI codec raise. Messages into
  which the source formats a value are shortened to their fixed part.
\<close>

datatype py_error =
    PyException string
  | ValueError string
  | TypeError string
  | KeyError string
  | OverflowError string
  | ZeroDivisionError string
  | ConnectionError string
  | FileNotFoundError string
  | AttributeError string
  | Web3Error string

fun error_str :: "py_error \<Rightarrow> string" where
  "error_str (PyException m) = m"
| "error_str (ValueError m) = m"
| "error_str (TypeError m) = m"
| "error_str (KeyError m) = m"
| "error_str (OverflowError m) = m"
| "error_str (ZeroDivisionError m) = m"
| "error_str (ConnectionError m) = m"
| "error_str (FileNotFoundError m) = m"
| "error_str (AttributeError m) = m"
| "error_str (Web3Error m) = m"

text \<open>What \<open>except (ValueError, TypeError)\<close> catches.\<close>

fun is_ValueError_or_TypeError :: "py_error \<Rightarrow> bool" where
  "is_ValueError_or_TypeError (ValueError m) = True"
| "is_ValueError_or_TypeError (TypeError m) = True"
| "is_ValueError_or_TypeError e = False"

text \<open>Sequencing of steps that may raise: the first exception ends the sequence.\<close>

fun bind_result :: "py_error + 'a \<Rightarrow> ('a \<Rightarrow> py_error + 'b) \<Rightarrow> py_error + 'b" where
  "bind_result (Inl e) f = Inl e"
| "bind_result (Inr x) f = f x"

text \<open>\<open>float(i)\<close> for an integer raises \<open>OverflowError\<close> beyond the binary64 range;
  \<open>a / b\<close> on two finite floats raises \<open>ZeroDivisionError\<close> for a zero divisor.\<close>

definition float_of_int :: "int \<Rightarrow> py_error + rat" where
  "float_of_int i =
     (case binary64 (of_int i) of
        Finite r \<Rightarrow> Inr r
      | _ \<Rightarrow> Inl (OverflowError ''int too large to convert to float''))"

definition float_truediv :: "rat \<Rightarrow> rat \<Rightarrow> py_error + pyfloat" where
  "float_truediv a b =
     (if b = 0 then Inl (ZeroDivisionError ''float division by zero'') else Inr (binary64 (a / b)))"

text \<open>The expression \<open>float(answer) / (10 ** feed.decimals)\<close>: the divisor is an
  integer, which the division converts to a float first.\<close>

definition price_of :: "int \<Rightarrow> nat \<Rightarrow> py_error + pyfloat" where
  "price_of answer d =
     bind_result (float_of_int answer) (\<lambda>a.
     bind_result (float_of_int (10 ^ d)) (\<lambda>b. float_truediv a b))"

section \<open>chainlink\_types: validated scalar types\<close>

definition ChainId :: "int \<Rightarrow> py_error + int" where
  "ChainId v =
     (if v \<noteq> 43114 then Inl (ValueError ''Invalid chain ID, expected 43114 for Avalanche C-Chain'')
      else Inr v)"

definition Address :: "string \<Rightarrow> py_error + string" where
  "Address v =
     (if length v \<noteq> 42 \<or> take 2 v \<noteq> ''0x'' then Inl (ValueError ''Invalid address format'')
      else Inr (lower v))"

definition BlockNumber :: "int \<Rightarrow> py_error + int" where
  "BlockNumber v =
     (if v < 0 then Inl (ValueError ''Block number must be non-negative'') else Inr v)"

definition Decimals :: "int \<Rightarrow> py_error + nat" where
  "Decimals v =
     (if \<not> (0 \<le> v \<and> v \<le> 18) then Inl (ValueError ''Decimals must be between 0 and 18'')
      else Inr (nat v))"

definition Heartbeat :: "int \<Rightarrow> py_error + int" where
  "Heartbeat v =
     (if v \<le> 0 then Inl (ValueError ''Heartbeat must be positive'') else Inr v)"

definition validate_symbol :: "string \<Rightarrow> py_error + string" where
  "validate_symbol s =
     (if s = [] then Inl (ValueError ''Symbol must be a non-empty string'')
      else Inr (upper (strip s)))"

definition is_valid_address :: "string \<Rightarrow> bool" where
  "is_valid_address v \<longleftrightarrow>
     length v = 42 \<and> take 2 v = ''0x''
     \<and> list_all (\<lambda>c. c \<in> set ''0123456789abcdefABCDEF'') (drop 2 v)"

definition AVALANCHE_CHAIN_ID :: int where
  "AVALANCHE_CHAIN_ID = 43114"

definition MULTICALL3_ADDRESS :: string where
  "MULTICALL3_ADDRESS = lower ''0xcA11bde05977b3631167028862bE2a173976CA11''"

section \<open>models: feed metadata\<close>

text \<open>\<open>decimals\<close> is a natural number: every construction of a feed goes through
  \<open>Decimals\<close> and the model's own validator, which admit 0 to 18 only.\<close>

record FeedMetadata =
  name :: string
  symbol :: string
  contractAddress :: string
  proxyAddress :: string
  decimals :: nat
  deviationThreshold :: pyfloat
  heartbeat :: int
  assetClass :: string
  productName :: string
  baseAsset :: string
  quoteAsset :: string

text \<open>The validators of the model class; a failed validation is a \<open>ValueError\<close>.\<close>

definition validate_ethereum_address :: "string \<Rightarrow> py_error + string" where
  "validate_ethereum_address v =
     (if length v \<noteq> 42 then Inl (ValueError ''Address must be 42 characters long'')
      else if take 2 v \<noteq> ''0x'' then Inl (ValueError ''Address must start with 0x'')
      else if \<not> list_all (\<lambda>c. c \<in> set ''0123456789abcdefABCDEF'') (drop 2 v)
        then Inl (ValueError ''Address must contain only hexadecimal characters'')
      else Inr (lower v))"

definition validate_decimals :: "nat \<Rightarrow> py_error + nat" where
  "validate_decimals v =
     (if \<not> v \<le> 18 then Inl (ValueError ''Decimals must be between 0 and 18'') else Inr v)"

definition validate_heartbeat :: "int \<Rightarrow> py_error + int" where
  "validate_heartbeat v =
     (if v \<le> 0 then Inl (ValueError ''Heartbeat must be positive'') else Inr v)"

definition model_validate_symbol :: "string \<Rightarrow> py_error + string" where
  "model_validate_symbol v =
     (if v = [] then Inl (ValueError ''Symbol must be a non-empty string'')
      else Inr (upper (strip v)))"

definition FeedMetadata_init ::
  "string \<Rightarrow> string \<Rightarrow> string \<Rightarrow> string \<Rightarrow> nat \<Rightarrow> pyfloat \<Rightarrow> int \<Rightarrow> string \<Rightarrow> string
     \<Rightarrow> string \<Rightarrow> string \<Rightarrow> py_error + FeedMetadata" where
  "FeedMetadata_init n sy ca pa d dt hb ac pn ba qa =
     bind_result (model_validate_symbol sy) (\<lambda>sy'.
     bind_result (validate_ethereum_address ca) (\<lambda>ca'.
     bind_result (validate_ethereum_address pa) (\<lambda>pa'.
     bind_result (validate_decimals d) (\<lambda>d'.
     bind_result (validate_heartbeat hb) (\<lambda>hb'.
       Inr \<lparr>name = n, symbol = sy', contractAddress = ca', proxyAddress = pa',
            decimals = d', deviationThreshold = dt, heartbeat = hb', assetClass = ac,
            productName = pn, baseAsset = ba, quoteAsset = qa\<rparr>)))))"

section \<open>Symbol normalisation\<close>

text \<open>The expression \<open>s.replace(' / ', '').replace(' ', '').upper()\<close>, which
  \<open>_load_feeds\<close>, \<open>get_feed\<close> and \<open>get_price\<close> all apply.\<close>

definition symbol_clean :: "string \<Rightarrow> string" where
  "symbol_clean s = upper (replace (replace s '' / '' '''') '' '' '''')"

section \<open>models: cached prices\<close>

record RawPriceData =
  answer :: string
  startedAt :: string
  raw_updatedAt :: string
  answeredInRound :: string

record PriceData =
  p_symbol :: string
  price :: pyfloat
  p_decimals :: nat
  roundId :: string
  updatedAt :: string
  p_proxyAddress :: string
  raw :: RawPriceData

section \<open>The service and its surroundings\<close>

type_synonym bytes = "8 word list"

text \<open>The five values of \<open>latestRoundData\<close> and \<open>getRoundData\<close>: round id, answer,
  started-at, updated-at, answered-in-round.\<close>

type_synonym round_tuple = "nat \<times> int \<times> nat \<times> nat \<times> nat"

text \<open>
  A row as \<open>csv.DictReader\<close> yields it: the column names of the header with the cells
  of the row, in column order. A row shorter than the header has \<open>None\<close> for the columns
  it lacks (\<open>NoCell\<close>), and a row longer than the header has its surplus cells as one
  list under the key \<open>None\<close> (\<open>Surplus\<close>). The keys of a row are distinct, as those of
  a dictionary are.
\<close>

datatype cell = Cell string | NoCell | Surplus "string list"

type_synonym raw_row = "(string option \<times> cell) list"

text \<open>
  Everything outside the service: the metadata file, the RPC node behind \<open>Web3\<close>, the
  contracts, the ABI codec, the clock and the library conversions. A call that can raise
  returns a sum. \<open>py_int\<close> and \<open>py_float\<close> are Python's \<open>int(s)\<close> and \<open>float(s)\<close> on a
  string, where \<open>None\<close> is their \<open>ValueError\<close>. The handles \<open>w3\<close> and
  \<open>multicall_contract\<close> of the service belong here: a call through a handle that is not
  set raises, as a call to a node that does not answer does.
\<close>

record env =
  csv_file :: "raw_row list option"
  py_int :: "string \<Rightarrow> int option"
  py_float :: "string \<Rightarrow> pyfloat option"
  is_connected :: bool
  chain_id :: int
  eth_block_number :: "py_error + int"
  to_checksum_address :: "string \<Rightarrow> py_error + string"
  aggregate :: "(string \<times> bytes) list \<Rightarrow> py_error + nat \<times> bytes list"
  codec_decode :: "bytes \<Rightarrow> py_error + round_tuple"
  utc_isoformat :: "nat \<Rightarrow> py_error + string"
  now_isoformat :: string
  elapsed_ms :: pyfloat
  call_getRoundData :: "string \<Rightarrow> int \<Rightarrow> py_error + round_tuple"
  call_description :: "string \<Rightarrow> py_error + string"
  call_version :: "string \<Rightarrow> py_error + nat"
  call_decimals :: "string \<Rightarrow> py_error + nat"

record PriceService =
  feeds :: "FeedMetadata list"
  prices :: "PriceData list"
  last_refresh_time :: "string option"
  refresh_in_progress :: bool

section \<open>Loading the feed metadata\<close>

datatype csv_value = StrV string | IntV int | FloatV pyfloat

definition required_fields :: "string list" where
  "required_fields =
     [''name'', ''contract_address'', ''proxy_address'', ''decimals'',
      ''deviation_threshold'', ''heartbeat'', ''asset_class'', ''product_name'',
      ''base_asset'', ''quote_asset'']"

text \<open>\<open>not raw_row.get(field)\<close>: the column is absent, or its value is \<open>None\<close>, the
  empty string or an empty list.\<close>

definition missing :: "raw_row \<Rightarrow> string \<Rightarrow> bool" where
  "missing raw_row field =
     (case map_of raw_row (Some field) of
        None \<Rightarrow> True
      | Some (Cell v) \<Rightarrow> v = []
      | Some NoCell \<Rightarrow> True
      | Some (Surplus vs) \<Rightarrow> vs = [])"

text \<open>
  One step of the conversion loop. \<open>CSV_FIELD_TYPES\<close> names the columns read by \<open>int\<close>
  and \<open>float\<close>: on a string they raise \<open>ValueError\<close>, on \<open>None\<close> or a list
  \<open>TypeError\<close>, and the loop turns both into a \<open>ValueError\<close>. Every other value is
  stripped, which raises \<open>AttributeError\<close> when the value is not a string.
\<close>

definition convert_field :: "env \<Rightarrow> string option \<Rightarrow> cell \<Rightarrow> py_error + csv_value" where
  "convert_field e field v =
     (if field = Some ''decimals'' \<or> field = Some ''heartbeat'' then
        (case v of
           Cell x \<Rightarrow>
             (case py_int e x of
                None \<Rightarrow> Inl (ValueError ''Invalid field value'')
              | Some i \<Rightarrow> Inr (IntV i))
         | _ \<Rightarrow> Inl (ValueError ''Invalid field value''))
      else if field = Some ''deviation_threshold'' then
        (case v of
           Cell x \<Rightarrow>
             (case py_float e x of
                None \<Rightarrow> Inl (ValueError ''Invalid field value'')
              | Some y \<Rightarrow> Inr (FloatV y))
         | _ \<Rightarrow> Inl (ValueError ''Invalid field value''))
      else
        (case v of
           Cell x \<Rightarrow> Inr (StrV (strip x))
         | _ \<Rightarrow> Inl (AttributeError ''object has no attribute strip'')))"

fun convert_items ::
  "env \<Rightarrow> raw_row \<Rightarrow> (string option \<times> csv_value) list
     \<Rightarrow> py_error + (string option \<times> csv_value) list" where
  "convert_items e [] validated_row = Inr validated_row"
| "convert_items e ((field, v) # rest) validated_row =
     (case convert_field e field v of
        Inl err \<Rightarrow> Inl err
      | Inr c \<Rightarrow> convert_items e rest (AList.update field c validated_row))"

definition validate_csv_row ::
  "env \<Rightarrow> raw_row \<Rightarrow> py_error + (string option \<times> csv_value) list" where
  "validate_csv_row e raw_row =
     (if filter (missing raw_row) required_fields \<noteq> []
      then Inl (ValueError ''Missing required fields'')
      else convert_items e raw_row [])"

text \<open>\<open>row[key]\<close> on the converted row, read at the type the column has.\<close>

definition str_item :: "(string option \<times> csv_value) list \<Rightarrow> string \<Rightarrow> py_error + string" where
  "str_item row k =
     (case map_of row (Some k) of Some (StrV s) \<Rightarrow> Inr s | _ \<Rightarrow> Inl (KeyError k))"

definition int_item :: "(string option \<times> csv_value) list \<Rightarrow> string \<Rightarrow> py_error + int" where
  "int_item row k =
     (case map_of row (Some k) of Some (IntV i) \<Rightarrow> Inr i | _ \<Rightarrow> Inl (KeyError k))"

definition float_item :: "(string option \<times> csv_value) list \<Rightarrow> string \<Rightarrow> py_error + pyfloat" where
  "float_item row k =
     (case map_of row (Some k) of Some (FloatV x) \<Rightarrow> Inr x | _ \<Rightarrow> Inl (KeyError k))"


text \<open>The body of the loop over the rows, up to the construction of the feed.\<close>

definition row_to_feed :: "env \<Rightarrow> raw_row \<Rightarrow> py_error + FeedMetadata" where
  "row_to_feed e raw_row =
     bind_result (validate_csv_row e raw_row) (\<lambda>row.
     bind_result (str_item row ''name'') (\<lambda>n.
     bind_result (validate_symbol (symbol_clean n)) (\<lambda>sy.
     bind_result (str_item row ''contract_address'') (\<lambda>ca.
     if \<not> is_valid_address ca then Inl (ValueError ''Invalid contract address'') else
     bind_result (str_item row ''proxy_address'') (\<lambda>pa.
     if \<not> is_valid_address pa then Inl (ValueError ''Invalid proxy address'') else
     bind_result (Address ca) (\<lambda>ca'.
     bind_result (Address pa) (\<lambda>pa'.
     bind_result (int_item row ''decimals'') (\<lambda>d.
     bind_result (Decimals d) (\<lambda>d'.
     bind_result (float_item row ''deviation_threshold'') (\<lambda>dt.
     bind_result (int_item row ''heartbeat'') (\<lambda>hb.
     bind_result (Heartbeat hb) (\<lambda>hb'.
     bind_result (str_item row ''asset_class'') (\<lambda>ac.
     bind_result (str_item row ''product_name'') (\<lambda>pn.
     bind_result (str_item row ''base_asset'') (\<lambda>ba.
     bind_result (str_item row ''quote_asset'') (\<lambda>qa.
       FeedMetadata_init n sy ca' pa' d' dt hb' ac pn ba qa))))))))))))))))"

text \<open>The loop: a \<open>ValueError\<close> or \<open>TypeError\<close> skips the row, any other exception
  leaves the loop with the feeds appended so far.\<close>

fun load_rows ::
  "env \<Rightarrow> raw_row list \<Rightarrow> FeedMetadata list \<Rightarrow> (py_error + unit) \<times> FeedMetadata list" where
  "load_rows e [] fs = (Inr (), fs)"
| "load_rows e (raw_row # rest) fs =
     (case row_to_feed e raw_row of
        Inr feed \<Rightarrow> load_rows e rest (fs @ [feed])
      | Inl err \<Rightarrow> if is_ValueError_or_TypeError err then load_rows e rest fs else (Inl err, fs))"

definition load_feeds :: "env \<Rightarrow> PriceService \<Rightarrow> (py_error + unit) \<times> PriceService" where
  "load_feeds e s =
     (case csv_file e of
        None \<Rightarrow> (Inl (FileNotFoundError ''Feed data file not found''), s\<lparr>feeds := []\<rparr>)
      | Some rows \<Rightarrow> (let (r, fs) = load_rows e rows [] in (r, s\<lparr>feeds := fs\<rparr>)))"

definition initialize :: "env \<Rightarrow> PriceService \<Rightarrow> (py_error + unit) \<times> PriceService" where
  "initialize e s =
     (if \<not> is_connected e
      then (Inl (ConnectionError ''Failed to connect to Avalanche C-Chain''), s)
      else case to_checksum_address e MULTICALL3_ADDRESS of
        Inl err \<Rightarrow> (Inl err, s)
      | Inr a \<Rightarrow>
         (case load_feeds e s of
            (Inl err, s') \<Rightarrow> (Inl err, s')
          | (Inr u, s') \<Rightarrow>
             (case bind_result (eth_block_number e) BlockNumber of
                Inl err \<Rightarrow> (Inl err, s')
              | Inr b \<Rightarrow> (Inr (), s'))))"

section \<open>Reading the cache\<close>

definition get_feeds :: "PriceService \<Rightarrow> FeedMetadata list" where
  "get_feeds s = feeds s"

fun find_feed :: "FeedMetadata list \<Rightarrow> string \<Rightarrow> FeedMetadata option" where
  "find_feed [] s = None"
| "find_feed (feed # fs) s =
     (if symbol feed = symbol_clean s
         \<or> symbol_clean (name feed) = symbol_clean s
         \<or> name feed = s
      then Some feed else find_feed fs s)"

definition get_feed :: "PriceService \<Rightarrow> string \<Rightarrow> FeedMetadata option" where
  "get_feed s sy = find_feed (feeds s) sy"

definition get_prices :: "PriceService \<Rightarrow> PriceData list" where
  "get_prices s = prices s"

fun find_price :: "PriceData list \<Rightarrow> string \<Rightarrow> PriceData option" where
  "find_price [] s = None"
| "find_price (p # ps) s =
     (if p_symbol p = symbol_clean s \<or> symbol_clean (p_symbol p) = symbol_clean s
      then Some p else find_price ps s)"

definition get_price :: "PriceService \<Rightarrow> string \<Rightarrow> PriceData option" where
  "get_price s sy = find_price (prices s) sy"

section \<open>The refresh cycle\<close>

text \<open>The first four bytes of \<open>keccak('latestRoundData()')\<close>.\<close>

definition latestRoundData_selector :: bytes where
  "latestRoundData_selector = [0xfe, 0xaf, 0x96, 0x8c]"

text \<open>The loop that builds the calls: one (checksummed proxy address, selector) pair per
  feed, in feed order.\<close>

fun prepare_calls ::
  "env \<Rightarrow> FeedMetadata list \<Rightarrow> (string \<times> bytes) list \<Rightarrow> py_error + (string \<times> bytes) list" where
  "prepare_calls e [] calls = Inr calls"
| "prepare_calls e (feed # fs) calls =
     (case to_checksum_address e (proxyAddress feed) of
        Inl err \<Rightarrow> Inl err
      | Inr a \<Rightarrow> prepare_calls e fs (calls @ [(a, latestRoundData_selector)]))"

text \<open>The body of the \<open>try\<close> in the decoding loop, for one feed and its return data.\<close>

definition decode_price :: "env \<Rightarrow> FeedMetadata \<Rightarrow> bytes \<Rightarrow> py_error + PriceData" where
  "decode_price e feed data =
     bind_result (codec_decode e data)
       (\<lambda>(round_id, answer_v, started_at, updated_at, answered_in_round).
     bind_result (price_of answer_v (decimals feed)) (\<lambda>pr.
     bind_result (utc_isoformat e updated_at) (\<lambda>iso.
       Inr \<lparr>p_symbol = symbol feed, price = pr, p_decimals = decimals feed,
            roundId = str_nat round_id, updatedAt = iso,
            p_proxyAddress = proxyAddress feed,
            raw = \<lparr>answer = str_int answer_v, startedAt = str_nat started_at,
                   raw_updatedAt = str_nat updated_at,
                   answeredInRound = str_nat answered_in_round\<rparr>\<rparr>)))"

text \<open>An entry of the error list: the dictionary with the keys \<open>symbol\<close> and \<open>error\<close>.\<close>

definition error_entry :: "FeedMetadata \<Rightarrow> py_error \<Rightarrow> (string \<times> string) list" where
  "error_entry feed err = [(''symbol'', symbol feed), (''error'', error_str err)]"

fun process_results ::
  "env \<Rightarrow> (FeedMetadata \<times> bytes) list \<Rightarrow> PriceData list \<Rightarrow> (string \<times> string) list list
     \<Rightarrow> PriceData list \<times> (string \<times> string) list list" where
  "process_results e [] new_prices errs = (new_prices, errs)"
| "process_results e ((feed, data) # rest) new_prices errs =
     (case decode_price e feed data of
        Inr p \<Rightarrow> process_results e rest (new_prices @ [p]) errs
      | Inl err \<Rightarrow> process_results e rest new_prices (errs @ [error_entry feed err]))"

record RefreshResult =
  successful :: nat
  errors :: "(string \<times> string) list list"
  duration :: pyfloat
  blockNumber :: string

text \<open>\<open>refresh_prices\<close>: the guard, the flag, the \<open>try\<close> and its \<open>finally\<close>, which
  clears the flag on every way out.\<close>

definition refresh_prices ::
  "env \<Rightarrow> PriceService \<Rightarrow> (py_error + RefreshResult) \<times> PriceService" where
  "refresh_prices e s =
     (if refresh_in_progress s
      then (Inl (PyException ''Price refresh already in progress''), s)
      else
        let s1 = s\<lparr>refresh_in_progress := True\<rparr> in
        case bind_result (prepare_calls e (feeds s1) []) (aggregate e) of
          Inl err \<Rightarrow> (Inl err, s1\<lparr>refresh_in_progress := False\<rparr>)
        | Inr (block_number, return_data) \<Rightarrow>
            let (new_prices, errs) = process_results e (zip (feeds s1) return_data) [] [];
                s2 = s1\<lparr>prices := new_prices, last_refresh_time := Some (now_isoformat e)\<rparr>
            in (Inr \<lparr>successful = length new_prices, errors = errs,
                     duration = elapsed_ms e, blockNumber = str_nat block_number\<rparr>,
                s2\<lparr>refresh_in_progress := False\<rparr>))"

section \<open>Per-feed queries\<close>

text \<open>The queries return a dictionary or \<open>None\<close>; the dictionary is kept as its list of
  keys and values.\<close>

datatype py_value = PyStr string | PyInt int | PyFloat pyfloat

definition get_round_data ::
  "env \<Rightarrow> PriceService \<Rightarrow> string \<Rightarrow> string \<Rightarrow> (string \<times> py_value) list option" where
  "get_round_data e s sy round_id =
     (case get_feed s sy of
        None \<Rightarrow> None
      | Some feed \<Rightarrow>
         (case
            bind_result (to_checksum_address e (proxyAddress feed)) (\<lambda>a.
            bind_result (case py_int e round_id of
                           None \<Rightarrow> Inl (ValueError ''invalid literal for int() with base 10'')
                         | Some i \<Rightarrow> Inr i) (\<lambda>rid.
            bind_result (call_getRoundData e a rid)
              (\<lambda>(round_id_ret, answer_v, started_at, updated_at, answered_in_round).
            bind_result (price_of answer_v (decimals feed)) (\<lambda>pr.
            bind_result (utc_isoformat e updated_at) (\<lambda>iso.
              Inr [(''roundId'', PyStr (str_nat round_id_ret)),
                   (''answer'', PyStr (str_int answer_v)),
                   (''startedAt'', PyStr (str_nat started_at)),
                   (''updatedAt'', PyStr (str_nat updated_at)),
                   (''answeredInRound'', PyStr (str_nat answered_in_round)),
                   (''price'', PyFloat pr),
                   (''decimals'', PyInt (int (decimals feed))),
                   (''symbol'', PyStr (symbol feed)),
                   (''timestamp'', PyStr iso)])))))
          of Inl err \<Rightarrow> None | Inr d \<Rightarrow> Some d))"

definition get_feed_description ::
  "env \<Rightarrow> PriceService \<Rightarrow> string \<Rightarrow> (string \<times> py_value) list option" where
  "get_feed_description e s sy =
     (case get_feed s sy of
        None \<Rightarrow> None
      | Some feed \<Rightarrow>
         (case
            bind_result (to_checksum_address e (proxyAddress feed)) (\<lambda>a.
            bind_result (call_description e a) (\<lambda>description.
              Inr [(''symbol'', PyStr (symbol feed)),
                   (''description'', PyStr description),
                   (''proxyAddress'', PyStr (proxyAddress feed))]))
          of Inl err \<Rightarrow> None | Inr d \<Rightarrow> Some d))"

definition get_feed_version ::
  "env \<Rightarrow> PriceService \<Rightarrow> string \<Rightarrow> (string \<times> py_value) list option" where
  "get_feed_version e s sy =
     (case get_feed s sy of
        None \<Rightarrow> None
      | Some feed \<Rightarrow>
         (case
            bind_result (to_checksum_address e (proxyAddress feed)) (\<lambda>a.
            bind_result (call_version e a) (\<lambda>version.
              Inr [(''symbol'', PyStr (symbol feed)),
                   (''version'', PyStr (str_nat version)),
                   (''proxyAddress'', PyStr (proxyAddress feed))]))
          of Inl err \<Rightarrow> None | Inr d \<Rightarrow> Some d))"

definition get_feed_decimals ::
  "env \<Rightarrow> PriceService \<Rightarrow> string \<Rightarrow> (string \<times> py_value) list option" where
  "get_feed_decimals e s sy =
     (case get_feed s sy of
        None \<Rightarrow> None
      | Some feed \<Rightarrow>
         (case
            bind_result (to_checksum_address e (proxyAddress feed)) (\<lambda>a.
            bind_result (call_decimals e a) (\<lambda>d.
              Inr [(''symbol'', PyStr (symbol feed)),
                   (''decimals'', PyInt (int d)),
                   (''proxyAddress'', PyStr (proxyAddress feed))]))
          of Inl err \<Rightarrow> None | Inr d \<Rightarrow> Some d))"

section \<open>Proof of Reserve\<close>

record ProofOfReserveEntry =
  por_symbol :: string
  asset :: string
  totalReserves :: pyfloat
  por_decimals :: nat
  rawReserves :: string
  por_updatedAt :: string
  por_roundId :: string
  por_proxyAddress :: string
  por_description :: string

definition get_proof_of_reserve_feeds :: "PriceService \<Rightarrow> FeedMetadata list" where
  "get_proof_of_reserve_feeds s = filter (\<lambda>feed. productName feed = ''Proof of Reserve'') (feeds s)"

definition decode_reserve :: "env \<Rightarrow> FeedMetadata \<Rightarrow> bytes \<Rightarrow> py_error + ProofOfReserveEntry" where
  "decode_reserve e feed data =
     bind_result (codec_decode e data)
       (\<lambda>(round_id, answer_v, started_at, updated_at, answered_in_round).
     bind_result (price_of answer_v (decimals feed)) (\<lambda>total_reserves.
     bind_result (utc_isoformat e updated_at) (\<lambda>iso.
       Inr \<lparr>por_symbol = symbol feed, asset = baseAsset feed,
            totalReserves = total_reserves, por_decimals = decimals feed,
            rawReserves = str_int answer_v, por_updatedAt = iso,
            por_roundId = str_nat round_id, por_proxyAddress = proxyAddress feed,
            por_description = name feed\<rparr>)))"

fun process_reserves ::
  "env \<Rightarrow> (FeedMetadata \<times> bytes) list \<Rightarrow> ProofOfReserveEntry list \<Rightarrow> ProofOfReserveEntry list" where
  "process_reserves e [] por_data = por_data"
| "process_reserves e ((feed, data) # rest) por_data =
     (case decode_reserve e feed data of
        Inr por_entry \<Rightarrow> process_reserves e rest (por_data @ [por_entry])
      | Inl err \<Rightarrow> process_reserves e rest por_data)"

text \<open>The calls are built before the \<open>try\<close>; the batch call and the decoding loop are
  inside it, and whatever the batch call raises becomes the empty list.\<close>

definition get_proof_of_reserve_data ::
  "env \<Rightarrow> PriceService \<Rightarrow> py_error + ProofOfReserveEntry list" where
  "get_proof_of_reserve_data e s =
     (let por_feeds = get_proof_of_reserve_feeds s in
      if por_feeds = [] then Inr []
      else case prepare_calls e por_feeds [] of
        Inl err \<Rightarrow> Inl err
      | Inr calls \<Rightarrow>
         (case aggregate e calls of
            Inl err \<Rightarrow> Inr []
          | Inr (block_number, return_data) \<Rightarrow>
              Inr (process_reserves e (zip por_feeds return_data) [])))"

record NetworkInfo =
  ni_chainId :: int
  ni_blockNumber :: string
  ni_connected :: bool

definition get_network_info :: "env \<Rightarrow> py_error + NetworkInfo" where
  "get_network_info e =
     bind_result (eth_block_number e) (\<lambda>block_number.
       Inr \<lparr>ni_chainId = AVALANCHE_CHAIN_ID, ni_blockNumber = str_int block_number,
            ni_connected = is_connected e\<rparr>)"

text \<open>\<open>max\<close> over a non-empty list of strings: the first greatest element, strings
  compared character by character.\<close>

fun py_max :: "string list \<Rightarrow> string" where
  "py_max [] = []"
| "py_max (x # xs) = foldl (\<lambda>m y. if m < y then y else m) x xs"

record ReservesSummary =
  totalAssets :: nat
  lastUpdated :: "string option"

record ReservesSnapshot =
  rs_timestamp :: string
  rs_blockNumber :: string
  rs_totalReserves :: "ProofOfReserveEntry list"
  summary :: ReservesSummary

definition get_reserves_snapshot :: "env \<Rightarrow> PriceService \<Rightarrow> py_error + ReservesSnapshot" where
  "get_reserves_snapshot e s =
     bind_result (get_proof_of_reserve_data e s) (\<lambda>por_data.
     bind_result (get_network_info e) (\<lambda>network_info.
       let total_assets = length por_data;
           last_updated = (if por_data \<noteq> [] then Some (py_max (map por_updatedAt por_data))
                           else None)
       in Inr \<lparr>rs_timestamp = now_isoformat e,
               rs_blockNumber = ni_blockNumber network_info,
               rs_totalReserves = por_data,
               summary = \<lparr>totalAssets = total_assets, lastUpdated = last_updated\<rparr>\<rparr>))"

section \<open>A small deployment for the examples\<close>

definition row_btc :: raw_row where
  "row_btc =
     [(Some ''name'', Cell ''BTC / USD''),
      (Some ''contract_address'', Cell ''0x2779D32d5166BAaa2B2b658333bA7e6Ec0C65743''),
      (Some ''proxy_address'', Cell ''0xA77B5D170F3aEC2F72Ca06490A7B9383A70Ae5eB''),
      (Some ''decimals'', Cell ''8''), (Some ''deviation_threshold'', Cell ''0.5''),
      (Some ''heartbeat'', Cell ''86400''),
      (Some ''asset_class'', Cell ''Crypto''), (Some ''product_name'', Cell ''Price Feed''),
      (Some ''base_asset'', Cell ''BTC''), (Some ''quote_asset'', Cell ''USD'')]"

definition feed_btc :: FeedMetadata where
  "feed_btc =
     \<lparr>name = ''BTC / USD'', symbol = ''BTCUSD'',
      contractAddress = ''0x2779d32d5166baaa2b2b658333ba7e6ec0c65743'',
      proxyAddress = ''0xa77b5d170f3aec2f72ca06490a7b9383a70ae5eb'',
      decimals = 8, deviationThreshold = Finite (1 / 2), heartbeat = 86400,
      assetClass = ''Crypto'', productName = ''Price Feed'',
      baseAsset = ''BTC'', quoteAsset = ''USD''\<rparr>"

definition feed_eth :: FeedMetadata where
  "feed_eth =
     feed_btc\<lparr>name := ''ETH / USD'', symbol := ''ETHUSD'',
       proxyAddress := ''0x976b3d034e162d8bd72d6b9c989d545b839003b0'', baseAsset := ''ETH''\<rparr>"

definition feed_avax :: FeedMetadata where
  "feed_avax =
     feed_btc\<lparr>name := ''AVAX / USD'', symbol := ''AVAXUSD'',
       proxyAddress := ''0x0a77230d17318075983913bc2145db16c7366156'', baseAsset := ''AVAX''\<rparr>"

definition feed_por :: FeedMetadata where
  "feed_por =
     feed_btc\<lparr>name := ''BTC.b PoR'', symbol := ''BTC.BPOR'',
       proxyAddress := ''0x99311b4bf6d8e3d3b4b9fbdd09a1b0f4ad8e06e9'',
       productName := ''Proof of Reserve'', baseAsset := ''BTC.b''\<rparr>"

text \<open>A node that answers: the batch call returns block 77 and one entry per call, where
  the entry \<open>[1]\<close> decodes to the answer 250000000000, \<open>[2]\<close> to 300000000000, and anything
  else does not decode.\<close>

definition demo_env :: env where
  "demo_env =
     \<lparr>csv_file = Some [row_btc],
      py_int = (\<lambda>s. if s = ''8'' then Some 8 else if s = ''86400'' then Some 86400
                     else if s = ''5'' then Some 5 else None),
      py_float = (\<lambda>s. if s = ''0.5'' then Some (Finite (1 / 2)) else None),
      is_connected = True, chain_id = 43114, eth_block_number = Inr 78,
      to_checksum_address = (\<lambda>a. Inr a),
      aggregate = (\<lambda>calls. Inr (77, map (\<lambda>(a, d). if a = proxyAddress feed_btc then [1]
                                          else if a = proxyAddress feed_eth then []
                                          else [2]) calls)),
      codec_decode = (\<lambda>b. if b = [1] then Inr (5, 250000000000, 10, 20, 5)
                          else if b = [2] then Inr (6, 300000000000, 11, 21, 6)
                          else Inl (Web3Error ''insufficient data'')),
      utc_isoformat = (\<lambda>n. Inr (''1970-01-01T00:00:'' @ str_nat n @ ''+00:00'')),
      now_isoformat = ''2024-01-01T00:00:00+00:00'', elapsed_ms = Finite 12,
      call_getRoundData = (\<lambda>a r. Inr (nat r, 250000000000, 10, 20, nat r)),
      call_description = (\<lambda>a. Inr ''BTC / USD''),
      call_version = (\<lambda>a. Inr 4),
      call_decimals = (\<lambda>a. Inr 8)\<rparr>"

text \<open>The same node with every request failing.\<close>

definition down_env :: env where
  "down_env =
     demo_env\<lparr>eth_block_number := Inl (Web3Error ''connection refused''),
       aggregate := (\<lambda>calls. Inl (Web3Error ''connection refused'')),
       call_getRoundData := (\<lambda>a r. Inl (Web3Error ''connection refused'')),
       call_description := (\<lambda>a. Inl (Web3Error ''connection refused'')),
       call_version := (\<lambda>a. Inl (Web3Error ''connection refused'')),
       call_decimals := (\<lambda>a. Inl (Web3Error ''connection refused''))\<rparr>"






text \<open>A row with one cell more than the header has columns.\<close>

definition row_surplus :: raw_row where
  "row_surplus = row_btc @ [(None, Surplus [''extra''])]"

definition surplus_env :: env where
  "surplus_env = demo_env\<lparr>csv_file := Some [row_btc, row_surplus, row_btc]\<rparr>"


definition price_btc :: PriceData where
  "price_btc =
     \<lparr>p_symbol = ''BTCUSD'', price = Finite 2500, p_decimals = 8, roundId = ''5'',
      updatedAt = ''1970-01-01T00:00:20+00:00'',
      p_proxyAddress = ''0xa77b5d170f3aec2f72ca06490a7b9383a70ae5eb'',
      raw = \<lparr>answer = ''250000000000'', startedAt = ''10'', raw_updatedAt = ''20'',
             answeredInRound = ''5''\<rparr>\<rparr>"

definition price_avax :: PriceData where
  "price_avax =
     \<lparr>p_symbol = ''AVAXUSD'', price = Finite 3000, p_decimals = 8, roundId = ''6'',
      updatedAt = ''1970-01-01T00:00:21+00:00'',
      p_proxyAddress = ''0x0a77230d17318075983913bc2145db16c7366156'',
      raw = \<lparr>answer = ''300000000000'', startedAt = ''11'', raw_updatedAt = ''21'',
             answeredInRound = ''6''\<rparr>\<rparr>"

text \<open>The same node one batch later: another block number, another decoding message.\<close>

definition later_env :: env where
  "later_env =
     demo_env\<lparr>aggregate := (\<lambda>calls. Inr (99, map (\<lambda>(a, d). if a = proxyAddress feed_btc then [1]
                                          else if a = proxyAddress feed_eth then []
                                          else [2]) calls)),
       codec_decode := (\<lambda>b. if b = [1] then Inr (5, 250000000000, 10, 20, 5)
                          else if b = [2] then Inr (6, 300000000000, 11, 21, 6)
                          else Inl (Web3Error ''padding bytes were not empty''))\<rparr>"

text \<open>A service that has loaded three feeds and published one price.\<close>

definition demo_service :: PriceService where
  "demo_service =
     \<lparr>feeds = [feed_btc, feed_eth, feed_avax], prices = [price_btc],
      last_refresh_time = Some ''2023-12-31T00:00:00+00:00'', refresh_in_progress = False\<rparr>"

text \<open>The same service with the two feeds BTC / USD and ETH / USD only.\<close>

definition two_feed_service :: PriceService where
  "two_feed_service = demo_service\<lparr>feeds := [feed_btc, feed_eth]\<rparr>"

text \<open>A node on another network: it answers as the first one does and reports the
  network identifier 1.\<close>

definition wrong_chain_env :: env where
  "wrong_chain_env = demo_env\<lparr>chain_id := 1\<rparr>"

text \<open>A service with two Proof of Reserve feeds beside a price feed, and a node whose batch
  call answers them with the entries \<open>[1]\<close> and \<open>[2]\<close> at block 80.\<close>

definition feed_por2 :: FeedMetadata where
  "feed_por2 =
     feed_por\<lparr>name := ''WBTC.e PoR'', symbol := ''WBTC.EPOR'',
       proxyAddress := ''0xebefe35b5ef4a6e1f8b1a4f2a0e9a6e3e2a2c3f1'', baseAsset := ''WBTC.e''\<rparr>"

definition por_service :: PriceService where
  "por_service = demo_service\<lparr>feeds := [feed_btc, feed_por, feed_por2]\<rparr>"

definition por_env :: env where
  "por_env = demo_env\<lparr>aggregate := (\<lambda>calls. Inr (80, [[1], [2]]))\<rparr>"

definition por_entry_1 :: ProofOfReserveEntry where
  "por_entry_1 =
     \<lparr>por_symbol = ''BTC.BPOR'', asset = ''BTC.b'', totalReserves = Finite 2500,
      por_decimals = 8, rawReserves = ''250000000000'',
      por_updatedAt = ''1970-01-01T00:00:20+00:00'', por_roundId = ''5'',
      por_proxyAddress = ''0x99311b4bf6d8e3d3b4b9fbdd09a1b0f4ad8e06e9'',
      por_description = ''BTC.b PoR''\<rparr>"

definition por_entry_2 :: ProofOfReserveEntry where
  "por_entry_2 =
     \<lparr>por_symbol = ''WBTC.EPOR'', asset = ''WBTC.e'', totalReserves = Finite 3000,
      por_decimals = 8, rawReserves = ''300000000000'',
      por_updatedAt = ''1970-01-01T00:00:21+00:00'', por_roundId = ''6'',
      por_proxyAddress = ''0xebefe35b5ef4a6e1f8b1a4f2a0e9a6e3e2a2c3f1'',
      por_description = ''WBTC.e PoR''\<rparr>"

text \<open>A node whose batch call fails while its block number can still be read.\<close>

definition batch_down_env :: env where
  "batch_down_env = demo_env\<lparr>aggregate := (\<lambda>calls. Inl (Web3Error ''execution reverted''))\<rparr>"

text \<open>The dictionary that the round query returns for round 5 of BTC / USD.\<close>

definition round_5 :: "(string \<times> py_value) list" where
  "round_5 =
     [(''roundId'', PyStr ''5''), (''answer'', PyStr ''250000000000''),
      (''startedAt'', PyStr ''10''), (''updatedAt'', PyStr ''20''),
      (''answeredInRound'', PyStr ''5''), (''price'', PyFloat (Finite 2500)),
      (''decimals'', PyInt 8), (''symbol'', PyStr ''BTCUSD''),
      (''timestamp'', PyStr ''1970-01-01T00:00:20+00:00'')]"

section \<open>Auxiliary facts\<close>

lemma bind_result_Inr: "bind_result m f = Inr y \<longleftrightarrow> (\<exists>x. m = Inr x \<and> f x = Inr y)"
  by (cases m) auto


text \<open>Unfolding the recursions on numerals one step at a time.\<close>

lemma bitlen_0: "bitlen 0 = 0"
  by (simp add: bitlen.simps)

lemma bitlen_pos: "n \<noteq> 0 \<Longrightarrow> bitlen n = Suc (bitlen (n div 2))"
  by (subst bitlen.simps) simp

lemma str_nat_small: "n < 10 \<Longrightarrow> str_nat n = [digit_char n]"
  by (subst str_nat.simps) simp

lemma str_nat_large:
  "\<not> n < 10 \<Longrightarrow> str_nat n = str_nat (n div 10) @ [digit_char (n mod 10)]"
  by (subst str_nat.simps) simp

lemmas char_eval = upper_def upper_char_def lower_def lower_char_def ascii_lowercase_def
  ascii_uppercase_def

lemmas str_eval = str_int_def str_nat_small str_nat_large digit_char_def

lemmas float_eval = price_of_def float_of_int_def float_truediv_def binary64_def
  floor_log2_def bitlen_0 bitlen_pos pow2_def round_half_even_def Let_def

lemma price_2500: "price_of 250000000000 8 = Inr (Finite 2500)"
  by (simp add: float_eval)

lemma price_3000: "price_of 300000000000 8 = Inr (Finite 3000)"
  by (simp add: float_eval)

lemma str_int_answer: "str_int 250000000000 = ''250000000000''"
  by (simp add: str_eval)

lemma decode_price_fails:
  "codec_decode e data = Inl err \<Longrightarrow> decode_price e feed data = Inl err"
  by (simp add: decode_price_def)

lemma decode_price_Inr:
  "decode_price e feed data = Inr p \<Longrightarrow>
     \<exists>rid ans st up air pr ts.
       codec_decode e data = Inr (rid, ans, st, up, air)
       \<and> price_of ans (decimals feed) = Inr pr \<and> utc_isoformat e up = Inr ts
       \<and> p = \<lparr>p_symbol = symbol feed, price = pr, p_decimals = decimals feed,
               roundId = str_nat rid, updatedAt = ts, p_proxyAddress = proxyAddress feed,
               raw = \<lparr>answer = str_int ans, startedAt = str_nat st,
                      raw_updatedAt = str_nat up, answeredInRound = str_nat air\<rparr>\<rparr>"
  by (auto simp add: decode_price_def bind_result_Inr)

lemma decode_price_fields:
  "decode_price e feed data = Inr p \<Longrightarrow>
     p_symbol p = symbol feed \<and> p_proxyAddress p = proxyAddress feed
     \<and> p_decimals p = decimals feed"
  by (drule decode_price_Inr) auto

lemma refresh_success:
  "\<not> refresh_in_progress s \<Longrightarrow> prepare_calls e (feeds s) [] = Inr calls \<Longrightarrow>
   aggregate e calls = Inr (bn, rd) \<Longrightarrow>
   process_results e (zip (feeds s) rd) [] [] = (new_prices, errs) \<Longrightarrow>
     refresh_prices e s
       = (Inr \<lparr>successful = length new_prices, errors = errs,
               duration = elapsed_ms e, blockNumber = str_nat bn\<rparr>,
          s\<lparr>prices := new_prices, last_refresh_time := Some (now_isoformat e)\<rparr>)"
  by (simp add: refresh_prices_def)

lemma demo_decode_btc: "decode_price demo_env feed_btc [1] = Inr price_btc"
  by (simp add: decode_price_def demo_env_def feed_btc_def price_btc_def price_2500 str_eval)

lemma demo_decode_avax: "decode_price demo_env feed_avax [2] = Inr price_avax"
  by (simp add: decode_price_def demo_env_def feed_avax_def feed_btc_def price_avax_def
      price_3000 str_eval)

lemma later_decode_btc: "decode_price later_env feed_btc [1] = Inr price_btc"
  by (simp add: decode_price_def later_env_def demo_env_def feed_btc_def price_btc_def
      price_2500 str_eval)

lemma demo_decode_empty: "codec_decode demo_env [] = Inl (Web3Error ''insufficient data'')"
  by (simp add: demo_env_def)

lemma later_decode_empty:
  "codec_decode later_env [] = Inl (Web3Error ''padding bytes were not empty'')"
  by (simp add: later_env_def)

lemma demo_idle: "\<not> refresh_in_progress demo_service"
  by (simp add: demo_service_def)

lemma demo_feeds: "feeds demo_service = [feed_btc, feed_eth, feed_avax]"
  by (simp add: demo_service_def)

lemma two_feed_idle: "\<not> refresh_in_progress two_feed_service"
  by (simp add: two_feed_service_def demo_service_def)

lemma two_feed_feeds: "feeds two_feed_service = [feed_btc, feed_eth]"
  by (simp add: two_feed_service_def)

lemma demo_calls3:
  "prepare_calls demo_env [feed_btc, feed_eth, feed_avax] []
     = Inr [(proxyAddress feed_btc, latestRoundData_selector),
            (proxyAddress feed_eth, latestRoundData_selector),
            (proxyAddress feed_avax, latestRoundData_selector)]"
  by (simp add: demo_env_def)

lemma demo_aggregate3:
  "aggregate demo_env [(proxyAddress feed_btc, latestRoundData_selector),
                       (proxyAddress feed_eth, latestRoundData_selector),
                       (proxyAddress feed_avax, latestRoundData_selector)]
     = Inr (77, [[1], [], [2]])"
  by (simp add: demo_env_def feed_btc_def feed_eth_def feed_avax_def)

lemma demo_calls2:
  "prepare_calls demo_env [feed_btc, feed_eth] []
     = Inr [(proxyAddress feed_btc, latestRoundData_selector),
            (proxyAddress feed_eth, latestRoundData_selector)]"
  by (simp add: demo_env_def)

lemma later_calls2:
  "prepare_calls later_env [feed_btc, feed_eth] []
     = Inr [(proxyAddress feed_btc, latestRoundData_selector),
            (proxyAddress feed_eth, latestRoundData_selector)]"
  by (simp add: later_env_def demo_env_def)

lemma demo_aggregate2:
  "aggregate demo_env [(proxyAddress feed_btc, latestRoundData_selector),
                       (proxyAddress feed_eth, latestRoundData_selector)]
     = Inr (77, [[1], []])"
  by (simp add: demo_env_def feed_btc_def feed_eth_def)

lemma later_aggregate2:
  "aggregate later_env [(proxyAddress feed_btc, latestRoundData_selector),
                        (proxyAddress feed_eth, latestRoundData_selector)]
     = Inr (99, [[1], []])"
  by (simp add: later_env_def feed_btc_def feed_eth_def)

lemma str_nat_77: "str_nat 77 = ''77''"
  by (simp add: str_eval)

lemma str_nat_99: "str_nat 99 = ''99''"
  by (simp add: str_eval)

section \<open>The refresh guard\<close>

text \<open>
  C1. A call of \<open>refresh_prices\<close> while the in-progress flag is set raises at once the
  exception with the message "Price refresh already in progress": whatever the
  surroundings are (no call reaches them, nothing is queued or waited for), the outcome
  is that exception, and the flag, the cached price list and the last-refresh timestamp
  are what they were.
\<close>

theorem refresh_conflict:
  "refresh_in_progress s \<Longrightarrow>
     refresh_prices e s = (Inl (PyException ''Price refresh already in progress''), s)
     \<and> refresh_in_progress (snd (refresh_prices e s)) = refresh_in_progress s
     \<and> prices (snd (refresh_prices e s)) = prices s
     \<and> last_refresh_time (snd (refresh_prices e s)) = last_refresh_time s"
  by (simp add: refresh_prices_def)

theorem refresh_conflict_witness:
  "refresh_in_progress (demo_service\<lparr>refresh_in_progress := True\<rparr>)
   \<and> refresh_prices demo_env (demo_service\<lparr>refresh_in_progress := True\<rparr>)
       = (Inl (PyException ''Price refresh already in progress''),
          demo_service\<lparr>refresh_in_progress := True\<rparr>)"
  using refresh_conflict [of "demo_service\<lparr>refresh_in_progress := True\<rparr>" demo_env]
  by simp

section \<open>A failed batch call\<close>

lemma demo_calls:
  "prepare_calls e (feeds demo_service) [] =
     bind_result (to_checksum_address e (proxyAddress feed_btc)) (\<lambda>a.
     bind_result (to_checksum_address e (proxyAddress feed_eth)) (\<lambda>b.
     bind_result (to_checksum_address e (proxyAddress feed_avax)) (\<lambda>c.
       Inr [(a, latestRoundData_selector), (b, latestRoundData_selector),
            (c, latestRoundData_selector)])))"
  by (simp add: demo_service_def split: sum.splits)

lemma demo_price_lookup: "get_price demo_service ''btc / usd'' = Some price_btc"
  by code_simp

text \<open>
  C2. When the flag is clear and the batch call raises, \<open>refresh_prices\<close> hands that very
  exception to its caller, the flag is clear again afterwards, and the cached price list
  and the last-refresh timestamp are untouched (the whole state is what it was), so that
  \<open>get_price\<close> answers every symbol as before.
\<close>

theorem refresh_transport_failure:
  "\<not> refresh_in_progress s \<Longrightarrow> prepare_calls e (feeds s) [] = Inr calls \<Longrightarrow>
   aggregate e calls = Inl err \<Longrightarrow>
     fst (refresh_prices e s) = Inl err
     \<and> \<not> refresh_in_progress (snd (refresh_prices e s))
     \<and> prices (snd (refresh_prices e s)) = prices s
     \<and> last_refresh_time (snd (refresh_prices e s)) = last_refresh_time s
     \<and> snd (refresh_prices e s) = s
     \<and> get_price (snd (refresh_prices e s)) sy = get_price s sy"
  by (simp add: refresh_prices_def get_price_def)

theorem refresh_transport_failure_witness:
  "\<not> refresh_in_progress demo_service
   \<and> prepare_calls down_env (feeds demo_service) []
       = Inr [(proxyAddress feed_btc, latestRoundData_selector),
              (proxyAddress feed_eth, latestRoundData_selector),
              (proxyAddress feed_avax, latestRoundData_selector)]
   \<and> fst (refresh_prices down_env demo_service) = Inl (Web3Error ''connection refused'')
   \<and> snd (refresh_prices down_env demo_service) = demo_service
   \<and> get_price (snd (refresh_prices down_env demo_service)) ''btc / usd'' = Some price_btc"
proof -
  have idle: "\<not> refresh_in_progress demo_service"
    by (simp add: demo_service_def)
  have calls: "prepare_calls down_env (feeds demo_service) []
       = Inr [(proxyAddress feed_btc, latestRoundData_selector),
              (proxyAddress feed_eth, latestRoundData_selector),
              (proxyAddress feed_avax, latestRoundData_selector)]"
    by (simp add: demo_calls down_env_def demo_env_def)
  have fails: "aggregate down_env [(proxyAddress feed_btc, latestRoundData_selector),
              (proxyAddress feed_eth, latestRoundData_selector),
              (proxyAddress feed_avax, latestRoundData_selector)]
       = Inl (Web3Error ''connection refused'')"
    by (simp add: down_env_def)
  show ?thesis
    using refresh_transport_failure [OF idle calls fails, of "''btc / usd''"]
      idle calls demo_price_lookup
    by simp
qed

section \<open>Decoding the batch\<close>

text \<open>
  C3. Decoding goes by position and a feed that does not decode stays alone in that: with
  the feeds [A, B, C] and the batch result [ra, rb, rc], where ra and rc decode for A and C
  and rb does not decode, \<open>refresh_prices\<close> finishes normally, the new price list is
  exactly the entry decoded from ra for A followed by the one decoded from rc for C (each
  bearing its own feed's symbol and proxy address), and the error list is the one entry
  for B: its symbol and the message of the decoding exception.
\<close>

theorem refresh_positional:
  "\<not> refresh_in_progress s \<Longrightarrow> feeds s = [A, B, C] \<Longrightarrow>
   prepare_calls e [A, B, C] [] = Inr calls \<Longrightarrow>
   aggregate e calls = Inr (bn, [ra, rb, rc]) \<Longrightarrow>
   decode_price e A ra = Inr pa \<Longrightarrow> codec_decode e rb = Inl err \<Longrightarrow>
   decode_price e C rc = Inr pc \<Longrightarrow>
     fst (refresh_prices e s)
       = Inr \<lparr>successful = 2,
              errors = [[(''symbol'', symbol B), (''error'', error_str err)]],
              duration = elapsed_ms e, blockNumber = str_nat bn\<rparr>
     \<and> prices (snd (refresh_prices e s)) = [pa, pc]
     \<and> p_symbol pa = symbol A \<and> p_proxyAddress pa = proxyAddress A
     \<and> p_symbol pc = symbol C \<and> p_proxyAddress pc = proxyAddress C
     \<and> \<not> refresh_in_progress (snd (refresh_prices e s))"
  by (simp add: refresh_prices_def decode_price_fails error_entry_def decode_price_fields)

theorem refresh_positional_witness:
  "\<not> refresh_in_progress demo_service
   \<and> feeds demo_service = [feed_btc, feed_eth, feed_avax]
   \<and> decode_price demo_env feed_btc [1] = Inr price_btc
   \<and> codec_decode demo_env [] = Inl (Web3Error ''insufficient data'')
   \<and> decode_price demo_env feed_avax [2] = Inr price_avax
   \<and> fst (refresh_prices demo_env demo_service)
       = Inr \<lparr>successful = 2,
              errors = [[(''symbol'', symbol feed_eth), (''error'', ''insufficient data'')]],
              duration = elapsed_ms demo_env, blockNumber = str_nat 77\<rparr>
   \<and> prices (snd (refresh_prices demo_env demo_service)) = [price_btc, price_avax]"
  using refresh_positional [OF demo_idle demo_feeds demo_calls3 demo_aggregate3
      demo_decode_btc demo_decode_empty demo_decode_avax]
    demo_idle demo_feeds demo_decode_btc demo_decode_empty demo_decode_avax
  by simp

section \<open>What a refresh publishes\<close>

text \<open>
  C4, as the code has it. With the two feeds F1 (8 decimals, decoding to the answer
  250000000000) and F2 (not decoding), a refresh leaves a state that differs from the
  old one in two fields only: the price list, now the single entry for F1 with the
  price 250000000000 / 10^8 = 2500.0, and the last-refresh timestamp, now the time of
  completion. The block number of the batch and the failure list with F2 are in the
  value the refresh returns to its caller, beside the success count 1; the state holds
  neither.
\<close>

theorem refresh_snapshot_contents:
  "\<not> refresh_in_progress s \<Longrightarrow> feeds s = [F1, F2] \<Longrightarrow> decimals F1 = 8 \<Longrightarrow>
   prepare_calls e [F1, F2] [] = Inr calls \<Longrightarrow> aggregate e calls = Inr (bn, [r1, r2]) \<Longrightarrow>
   codec_decode e r1 = Inr (rid, 250000000000, st, up, air) \<Longrightarrow>
   utc_isoformat e up = Inr ts \<Longrightarrow> codec_decode e r2 = Inl err \<Longrightarrow>
     snd (refresh_prices e s)
       = s\<lparr>prices := [\<lparr>p_symbol = symbol F1, price = Finite 2500, p_decimals = 8,
                        roundId = str_nat rid, updatedAt = ts,
                        p_proxyAddress = proxyAddress F1,
                        raw = \<lparr>answer = ''250000000000'', startedAt = str_nat st,
                               raw_updatedAt = str_nat up,
                               answeredInRound = str_nat air\<rparr>\<rparr>],
            last_refresh_time := Some (now_isoformat e)\<rparr>
     \<and> fst (refresh_prices e s)
       = Inr \<lparr>successful = 1,
              errors = [[(''symbol'', symbol F2), (''error'', error_str err)]],
              duration = elapsed_ms e, blockNumber = str_nat bn\<rparr>"
proof -
  assume a: "\<not> refresh_in_progress s" "feeds s = [F1, F2]" "decimals F1 = 8"
    "prepare_calls e [F1, F2] [] = Inr calls" "aggregate e calls = Inr (bn, [r1, r2])"
    "codec_decode e r1 = Inr (rid, 250000000000, st, up, air)"
    "utc_isoformat e up = Inr ts" "codec_decode e r2 = Inl err"
  have d1: "decode_price e F1 r1
      = Inr \<lparr>p_symbol = symbol F1, price = Finite 2500, p_decimals = 8,
             roundId = str_nat rid, updatedAt = ts, p_proxyAddress = proxyAddress F1,
             raw = \<lparr>answer = ''250000000000'', startedAt = str_nat st,
                    raw_updatedAt = str_nat up, answeredInRound = str_nat air\<rparr>\<rparr>"
    using a by (simp add: decode_price_def price_2500 str_int_answer)
  have d2: "decode_price e F2 r2 = Inl err"
    using a by (simp add: decode_price_fails)
  show ?thesis
    using a(1,2,4,5) d1 d2 by (simp add: refresh_prices_def error_entry_def)
qed

theorem refresh_snapshot_contents_witness:
  "\<not> refresh_in_progress two_feed_service
   \<and> feeds two_feed_service = [feed_btc, feed_eth] \<and> decimals feed_btc = 8
   \<and> codec_decode demo_env [1] = Inr (5, 250000000000, 10, 20, 5)
   \<and> utc_isoformat demo_env 20 = Inr ''1970-01-01T00:00:20+00:00''
   \<and> codec_decode demo_env [] = Inl (Web3Error ''insufficient data'')
   \<and> prices (snd (refresh_prices demo_env two_feed_service)) = [price_btc]
   \<and> fst (refresh_prices demo_env two_feed_service)
       = Inr \<lparr>successful = 1,
              errors = [[(''symbol'', ''ETHUSD''), (''error'', ''insufficient data'')]],
              duration = Finite 12, blockNumber = ''77''\<rparr>"
proof -
  have dec: "decimals feed_btc = 8"
    by (simp add: feed_btc_def)
  have one: "codec_decode demo_env [1] = Inr (5, 250000000000, 10, 20, 5)"
    by (simp add: demo_env_def)
  have ts: "utc_isoformat demo_env 20 = Inr ''1970-01-01T00:00:20+00:00''"
    by (simp add: demo_env_def str_eval)
  have strs: "str_nat 5 = ''5''" "str_nat 10 = ''10''" "str_nat 20 = ''20''"
    by (simp_all add: str_eval)
  have misc: "symbol feed_eth = ''ETHUSD''" "elapsed_ms demo_env = Finite 12"
      "symbol feed_btc = ''BTCUSD''"
      "proxyAddress feed_btc = ''0xa77b5d170f3aec2f72ca06490a7b9383a70ae5eb''"
    by (simp_all add: feed_eth_def feed_btc_def demo_env_def)
  show ?thesis
    using refresh_snapshot_contents [OF two_feed_idle two_feed_feeds dec demo_calls2
        demo_aggregate2 one ts demo_decode_empty]
      two_feed_idle two_feed_feeds dec one ts demo_decode_empty
    by (simp add: strs misc str_nat_77 price_btc_def)
qed

text \<open>
  C4 as the claim words it fails: the state that the queries read does not carry the
  block number of the batch or the failure list. Two refreshes of the same service whose
  batches differ in the block number (77, 99) and in the message of the failed decoding
  leave the very same state.
\<close>

theorem snapshot_carries_block_counterexample:
  "snd (refresh_prices demo_env two_feed_service)
     = snd (refresh_prices later_env two_feed_service)
   \<and> fst (refresh_prices demo_env two_feed_service)
     = Inr \<lparr>successful = 1,
            errors = [[(''symbol'', ''ETHUSD''), (''error'', ''insufficient data'')]],
            duration = Finite 12, blockNumber = ''77''\<rparr>
   \<and> fst (refresh_prices later_env two_feed_service)
     = Inr \<lparr>successful = 1,
            errors = [[(''symbol'', ''ETHUSD''), (''error'', ''padding bytes were not empty'')]],
            duration = Finite 12, blockNumber = ''99''\<rparr>"
proof -
  have p1: "process_results demo_env (zip (feeds two_feed_service) [[1], []]) [] []
      = ([price_btc], [[(''symbol'', ''ETHUSD''), (''error'', ''insufficient data'')]])"
    by (simp add: two_feed_feeds demo_decode_btc decode_price_fails [OF demo_decode_empty]
        error_entry_def feed_eth_def)
  have p2: "process_results later_env (zip (feeds two_feed_service) [[1], []]) [] []
      = ([price_btc], [[(''symbol'', ''ETHUSD''), (''error'', ''padding bytes were not empty'')]])"
    by (simp add: two_feed_feeds later_decode_btc decode_price_fails [OF later_decode_empty]
        error_entry_def feed_eth_def)
  have c1: "prepare_calls demo_env (feeds two_feed_service) []
      = Inr [(proxyAddress feed_btc, latestRoundData_selector),
             (proxyAddress feed_eth, latestRoundData_selector)]"
    by (simp only: two_feed_feeds demo_calls2)
  have c2: "prepare_calls later_env (feeds two_feed_service) []
      = Inr [(proxyAddress feed_btc, latestRoundData_selector),
             (proxyAddress feed_eth, latestRoundData_selector)]"
    by (simp only: two_feed_feeds later_calls2)
  have r1: "refresh_prices demo_env two_feed_service
      = (Inr \<lparr>successful = 1,
              errors = [[(''symbol'', ''ETHUSD''), (''error'', ''insufficient data'')]],
              duration = Finite 12, blockNumber = ''77''\<rparr>,
         two_feed_service\<lparr>prices := [price_btc],
           last_refresh_time := Some ''2024-01-01T00:00:00+00:00''\<rparr>)"
    using refresh_success [OF two_feed_idle c1 demo_aggregate2 p1]
    by (simp add: str_nat_77 demo_env_def)
  have r2: "refresh_prices later_env two_feed_service
      = (Inr \<lparr>successful = 1,
              errors = [[(''symbol'', ''ETHUSD''), (''error'', ''padding bytes were not empty'')]],
              duration = Finite 12, blockNumber = ''99''\<rparr>,
         two_feed_service\<lparr>prices := [price_btc],
           last_refresh_time := Some ''2024-01-01T00:00:00+00:00''\<rparr>)"
    using refresh_success [OF two_feed_idle c2 later_aggregate2 p2]
    by (simp add: str_nat_99 later_env_def demo_env_def)
  show ?thesis
    by (simp add: r1 r2)
qed

section \<open>The registry lookup\<close>

lemma find_feed_cong:
  "symbol_clean x = symbol_clean y \<Longrightarrow> find_feed fs x = find_feed fs y"
proof (induction fs)
  case Nil
  show ?case by simp
next
  case (Cons f fs)
  have "(symbol f = symbol_clean x \<or> symbol_clean (name f) = symbol_clean x \<or> name f = x)
      \<longleftrightarrow> (symbol f = symbol_clean y \<or> symbol_clean (name f) = symbol_clean y \<or> name f = y)"
    using Cons.prems by auto
  then show ?case using Cons by simp
qed

lemma find_feed_Some:
  "find_feed fs x = Some f \<Longrightarrow>
     f \<in> set fs \<and> (symbol f = symbol_clean x \<or> symbol_clean (name f) = symbol_clean x)"
  by (induction fs) (auto split: if_splits)

lemma find_feed_exists:
  "f0 \<in> set fs \<Longrightarrow> symbol f0 = symbol_clean x \<Longrightarrow> \<exists>f. find_feed fs x = Some f"
  by (induction fs) auto

lemma upper_char_idem: "upper_char (upper_char c) = upper_char c"
  by (simp add: upper_char_def ascii_lowercase_def ascii_uppercase_def)

lemma upper_char_space: "upper_char c = CHR '' '' \<longleftrightarrow> c = CHR '' ''"
  by (simp add: upper_char_def ascii_lowercase_def ascii_uppercase_def)

lemma upper_char_slash: "upper_char c = CHR ''/'' \<longleftrightarrow> c = CHR ''/''"
  by (simp add: upper_char_def ascii_lowercase_def ascii_uppercase_def)

lemma upper_idem: "upper (upper s) = upper s"
  by (simp add: upper_def upper_char_idem)

lemma sep_map_upper:
  "take 3 (map upper_char s) = '' / '' \<longleftrightarrow> take 3 s = '' / ''"
proof (cases s)
  case Nil then show ?thesis by simp
next
  case (Cons a s1)
  show ?thesis
  proof (cases s1)
    case Nil then show ?thesis using Cons by simp
  next
    case (Cons b s2)
    show ?thesis
    proof (cases s2)
      case Nil then show ?thesis using Cons \<open>s = a # s1\<close> by simp
    next
      case (Cons c s3)
      then show ?thesis using \<open>s = a # s1\<close> \<open>s1 = b # s2\<close>
        by (simp add: upper_char_space upper_char_slash)
    qed
  qed
qed

lemma replace_sep_step:
  "replace_from '' / '' [] (c # cs) =
     (if take 3 (c # cs) = '' / '' then replace_from '' / '' [] (drop 2 cs)
      else c # replace_from '' / '' [] cs)"
  by (simp add: numeral_2_eq_2 numeral_3_eq_3)

lemma replace_sep_upper:
  "replace_from '' / '' [] (map upper_char s) = map upper_char (replace_from '' / '' [] s)"
proof (induction "length s" arbitrary: s rule: less_induct)
  case less
  show ?case
  proof (cases s)
    case Nil then show ?thesis by simp
  next
    case (Cons c cs)
    have t: "take 3 (upper_char c # map upper_char cs) = '' / '' \<longleftrightarrow> take 3 (c # cs) = '' / ''"
      using sep_map_upper [of "c # cs"] by (simp only: list.map)
    have l1: "length (drop 2 cs) < length s" using Cons by simp
    have l2: "length cs < length s" using Cons by simp
    have "replace_from '' / '' [] (map upper_char (c # cs))
        = (if take 3 (upper_char c # map upper_char cs) = '' / ''
           then replace_from '' / '' [] (drop 2 (map upper_char cs))
           else upper_char c # replace_from '' / '' [] (map upper_char cs))"
      unfolding list.map by (rule replace_sep_step)
    also have "\<dots> = (if take 3 (c # cs) = '' / ''
           then map upper_char (replace_from '' / '' [] (drop 2 cs))
           else upper_char c # map upper_char (replace_from '' / '' [] cs))"
      by (simp only: t drop_map less(1)[OF l1] less(1)[OF l2])
    also have "\<dots> = map upper_char (if take 3 (c # cs) = '' / ''
           then replace_from '' / '' [] (drop 2 cs)
           else c # replace_from '' / '' [] cs)"
      by (simp only: if_distrib [of "map upper_char"] list.map)
    also have "\<dots> = map upper_char (replace_from '' / '' [] (c # cs))"
      by (simp only: replace_sep_step)
    finally show ?thesis using Cons by simp
  qed
qed

lemma replace_space_filter: "replace_from '' '' [] s = filter (\<lambda>c. c \<noteq> CHR '' '') s"
  by (induction s) auto

lemma symbol_clean_alt:
  "symbol_clean s = filter (\<lambda>c. c \<noteq> CHR '' '') (replace_from '' / '' [] (upper s))"
  by (simp add: symbol_clean_def replace_def replace_space_filter upper_def replace_sep_upper
      filter_map comp_def upper_char_space)

lemma replace_sep_no_space:
  "CHR '' '' \<notin> set s \<Longrightarrow> replace_from '' / '' [] s = s"
  by (induction s) auto

lemma upper_filter_space:
  "upper (filter (\<lambda>c. c \<noteq> CHR '' '') s) = filter (\<lambda>c. c \<noteq> CHR '' '') (upper s)"
  by (simp add: upper_def filter_map comp_def upper_char_space)

lemma symbol_clean_idem: "symbol_clean (symbol_clean s) = symbol_clean s"
proof -
  let ?ns = "\<lambda>c. c \<noteq> CHR '' ''"
  let ?R = "replace_from '' / '' []"
  have "map upper_char (?R (map upper_char s)) = ?R (map upper_char (map upper_char s))"
    by (rule replace_sep_upper [symmetric])
  also have "\<dots> = ?R (map upper_char s)"
    by (simp only: upper_idem [unfolded upper_def])
  finally have u: "upper (?R (upper s)) = ?R (upper s)"
    by (simp only: upper_def)
  have "symbol_clean (symbol_clean s) = filter ?ns (?R (upper (filter ?ns (?R (upper s)))))"
    by (simp only: symbol_clean_alt)
  also have "\<dots> = filter ?ns (?R (filter ?ns (?R (upper s))))"
    by (simp only: upper_filter_space u)
  also have "\<dots> = filter ?ns (filter ?ns (?R (upper s)))"
    by (subst replace_sep_no_space) simp_all
  also have "\<dots> = symbol_clean s"
    by (simp add: symbol_clean_alt)
  finally show ?thesis .
qed

lemma symbol_clean_upper: "upper x = upper y \<Longrightarrow> symbol_clean x = symbol_clean y"
  by (simp add: symbol_clean_alt)

lemma clean_BTCUSD:
  "symbol_clean ''BTCUSD'' = ''BTCUSD''"
  "symbol_clean '' BTC / USD '' = ''BTCUSD''"
  "symbol_clean ''btc / usd'' = ''BTCUSD''"
  "symbol_clean ''btc/usd'' = ''BTC/USD''"
  by code_simp+

lemma find_feed_find:
  "find_feed fs x =
     List.find (\<lambda>f. symbol f = symbol_clean x \<or> symbol_clean (name f) = symbol_clean x) fs"
  by (induction fs) auto

lemma find_by_symbol:
  "\<forall>f \<in> set fs. symbol f = symbol_clean (name f) \<Longrightarrow>
     find_feed fs x = List.find (\<lambda>f. symbol f = symbol_clean x) fs"
  unfolding find_feed_find by (rule find_cong) auto

lemma find_first_exists:
  "g \<in> set fs \<Longrightarrow> P g \<Longrightarrow> \<exists>f. List.find P fs = Some f \<and> P f \<and> f \<in> set fs"
  by (induction fs) auto

text \<open>
  C5, as the code has it. The normalisation removes the separator " / " (a slash between
  two spaces) and every space, then upper-cases; a slash without spaces stays. Take a
  registry as the load builds it, where the symbol of every feed is the normalisation of
  its name, and let it hold a feed with the symbol "BTCUSD". Then the lookups of "BTCUSD",
  " BTC / USD " and "btc / usd" all return one and the same feed: the first feed of the
  registry with the symbol "BTCUSD", which is that feed itself when no other feed has
  its symbol. In any registry a lookup returns the first feed whose symbol or normalised
  name equals the normalised argument; it depends on its argument up to letter case
  only, and normalising the argument beforehand changes nothing.
\<close>

theorem lookup_normalised:
  "g \<in> set (feeds s) \<Longrightarrow> symbol g = ''BTCUSD'' \<Longrightarrow>
   \<forall>f \<in> set (feeds s). symbol f = symbol_clean (name f) \<Longrightarrow>
     (\<exists>f0. List.find (\<lambda>f. symbol f = ''BTCUSD'') (feeds s) = Some f0
          \<and> symbol f0 = ''BTCUSD''
          \<and> get_feed s ''BTCUSD'' = Some f0 \<and> get_feed s '' BTC / USD '' = Some f0
          \<and> get_feed s ''btc / usd'' = Some f0
          \<and> ((\<forall>f \<in> set (feeds s). symbol f = ''BTCUSD'' \<longrightarrow> f = g) \<longrightarrow> f0 = g))
     \<and> get_feed s x
          = List.find (\<lambda>f. symbol f = symbol_clean x \<or> symbol_clean (name f) = symbol_clean x)
              (feeds s)
     \<and> (upper x = upper y \<longrightarrow> get_feed s x = get_feed s y)
     \<and> get_feed s (symbol_clean x) = get_feed s x"
proof -
  assume a: "g \<in> set (feeds s)" "symbol g = ''BTCUSD''"
    and inv: "\<forall>f \<in> set (feeds s). symbol f = symbol_clean (name f)"
  from find_first_exists [of g "feeds s" "\<lambda>f. symbol f = ''BTCUSD''", OF a]
  obtain f0 where f0: "List.find (\<lambda>f. symbol f = ''BTCUSD'') (feeds s) = Some f0"
      "symbol f0 = ''BTCUSD''" "f0 \<in> set (feeds s)"
    by blast
  have l1: "get_feed s ''BTCUSD'' = Some f0"
    unfolding get_feed_def using find_by_symbol [OF inv, of "''BTCUSD''"] f0(1)
    by (simp add: clean_BTCUSD)
  have l2: "get_feed s '' BTC / USD '' = Some f0"
    unfolding get_feed_def using find_by_symbol [OF inv, of "'' BTC / USD ''"] f0(1)
    by (simp add: clean_BTCUSD)
  have l3: "get_feed s ''btc / usd'' = Some f0"
    unfolding get_feed_def using find_by_symbol [OF inv, of "''btc / usd''"] f0(1)
    by (simp add: clean_BTCUSD)
  have u: "(\<forall>f \<in> set (feeds s). symbol f = ''BTCUSD'' \<longrightarrow> f = g) \<longrightarrow> f0 = g"
    using f0(2,3) by blast
  have e: "\<exists>f0. List.find (\<lambda>f. symbol f = ''BTCUSD'') (feeds s) = Some f0
          \<and> symbol f0 = ''BTCUSD''
          \<and> get_feed s ''BTCUSD'' = Some f0 \<and> get_feed s '' BTC / USD '' = Some f0
          \<and> get_feed s ''btc / usd'' = Some f0
          \<and> ((\<forall>f \<in> set (feeds s). symbol f = ''BTCUSD'' \<longrightarrow> f = g) \<longrightarrow> f0 = g)"
    using f0(1,2) l1 l2 l3 u by blast
  have ff: "get_feed s x
          = List.find (\<lambda>f. symbol f = symbol_clean x \<or> symbol_clean (name f) = symbol_clean x)
              (feeds s)"
    unfolding get_feed_def by (rule find_feed_find)
  have c: "upper x = upper y \<longrightarrow> get_feed s x = get_feed s y"
    unfolding get_feed_def by (intro impI find_feed_cong symbol_clean_upper)
  have i: "get_feed s (symbol_clean x) = get_feed s x"
    unfolding get_feed_def by (rule find_feed_cong [OF symbol_clean_idem])
  show ?thesis
    using e ff c i by (intro conjI)
qed

lemma demo_invariant: "\<forall>f \<in> set (feeds demo_service). symbol f = symbol_clean (name f)"
  by (simp add: demo_service_def feed_btc_def feed_eth_def feed_avax_def symbol_clean_def
      replace_def char_eval)

lemma demo_lookup:
  "get_feed demo_service ''BTCUSD'' = Some feed_btc"
  "get_feed demo_service ''btc/usd'' = None"
  by (simp_all add: get_feed_def demo_service_def feed_btc_def feed_eth_def feed_avax_def
      symbol_clean_def replace_def char_eval)

theorem lookup_normalised_witness:
  "feed_btc \<in> set (feeds demo_service) \<and> symbol feed_btc = ''BTCUSD''
   \<and> list_all (\<lambda>f. symbol f = symbol_clean (name f)) (feeds demo_service)
   \<and> upper ''Btc / Usd'' = upper ''btc / usd''
   \<and> get_feed demo_service ''BTCUSD'' = Some feed_btc
   \<and> get_feed demo_service '' BTC / USD '' = Some feed_btc
   \<and> get_feed demo_service ''btc / usd'' = Some feed_btc
   \<and> get_feed demo_service ''Btc / Usd'' = Some feed_btc"
proof -
  have m: "feed_btc \<in> set (feeds demo_service)"
    by (simp add: demo_service_def)
  have sy: "symbol feed_btc = ''BTCUSD''"
    by (simp add: feed_btc_def)
  have un: "\<forall>f \<in> set (feeds demo_service). symbol f = ''BTCUSD'' \<longrightarrow> f = feed_btc"
    by (simp add: demo_service_def feed_eth_def feed_avax_def)
  have up: "upper ''Btc / Usd'' = upper ''btc / usd''"
    by (simp add: char_eval)
  note t = lookup_normalised [OF m sy demo_invariant, of "''Btc / Usd''" "''btc / usd''"]
  from t un obtain f0 where f: "get_feed demo_service ''BTCUSD'' = Some f0"
      "get_feed demo_service '' BTC / USD '' = Some f0"
      "get_feed demo_service ''btc / usd'' = Some f0" "f0 = feed_btc"
    by blast
  from t up have "get_feed demo_service ''Btc / Usd'' = get_feed demo_service ''btc / usd''"
    by blast
  with f m sy up demo_invariant show ?thesis
    by (simp add: list_all_iff)
qed

text \<open>
  C5 as the claim words it fails at "btc/usd": the slash has no spaces around it, the
  normalised argument is "BTC/USD", and the registry that holds BTCUSD answers \<open>None\<close>.
\<close>

theorem lookup_bare_slash_counterexample:
  "symbol feed_btc = ''BTCUSD'' \<and> feed_btc \<in> set (feeds demo_service)
   \<and> get_feed demo_service ''BTCUSD'' = Some feed_btc
   \<and> get_feed demo_service ''btc/usd'' = None"
  by (simp add: demo_lookup) (simp add: feed_btc_def demo_service_def)

section \<open>Loading the metadata file\<close>




text \<open>The converted row holds, for every column of the raw row, a converted cell of
  that column; other keys are as in the accumulator.\<close>

lemma convert_items_keys:
  "convert_items e row acc = Inr out \<Longrightarrow>
     (k \<in> fst ` set row \<longrightarrow> (\<exists>v c. (k, v) \<in> set row \<and> convert_field e k v = Inr c \<and> map_of out k = Some c))
     \<and> (k \<notin> fst ` set row \<longrightarrow> map_of out k = map_of acc k)"
proof (induction row arbitrary: acc)
  case Nil
  then show ?case by simp
next
  case (Cons p row)
  obtain field v where p: "p = (field, v)" by (cases p)
  from Cons.prems p obtain c where c: "convert_field e field v = Inr c"
      and rest: "convert_items e row (AList.update field c acc) = Inr out"
    by (auto split: sum.splits)
  note IH = Cons.IH [OF rest]
  show ?case
  proof (cases "k \<in> fst ` set row")
    case True
    then show ?thesis using IH p by auto
  next
    case False
    then have m: "map_of out k = map_of (AList.update field c acc) k" using IH by simp
    show ?thesis
    proof (cases "k = field")
      case True
      then show ?thesis using m c p by (auto simp add: update_conv')
    next
      case False
      then show ?thesis using m p \<open>k \<notin> fst ` set row\<close> by (auto simp add: update_conv')
    qed
  qed
qed

lemma convert_items_distinct:
  "convert_items e row acc = Inr out \<Longrightarrow> distinct (map fst row) \<Longrightarrow>
   map_of row k = Some v \<Longrightarrow> \<exists>c. convert_field e k v = Inr c \<and> map_of out k = Some c"
proof -
  assume a: "convert_items e row acc = Inr out" "distinct (map fst row)" "map_of row k = Some v"
  have "(k, v) \<in> set row" using a(3) by (rule map_of_SomeD)
  then have "fst (k, v) \<in> fst ` set row" by (rule imageI)
  then have "k \<in> fst ` set row" by simp
  then obtain v' c where vc: "(k, v') \<in> set row" "convert_field e k v' = Inr c" "map_of out k = Some c"
    using convert_items_keys [OF a(1), of k] by blast
  have "map_of row k = Some v'" using a(2) vc(1) by simp
  then have "v' = v" using a(3) by simp
  then show ?thesis using vc by blast
qed






























lemmas row_eval = row_to_feed_def validate_csv_row_def required_fields_def missing_def
  convert_field_def str_item_def int_item_def float_item_def
  validate_symbol_def symbol_clean_def replace_def strip_def is_space_def is_valid_address_def
  Address_def Decimals_def Heartbeat_def FeedMetadata_init_def model_validate_symbol_def
  validate_ethereum_address_def validate_decimals_def validate_heartbeat_def

lemma convert_field_env:
  "py_int e = py_int e' \<Longrightarrow> py_float e = py_float e' \<Longrightarrow>
     convert_field e field v = convert_field e' field v"
  by (cases v) (simp_all add: convert_field_def)

lemma convert_items_env:
  "py_int e = py_int e' \<Longrightarrow> py_float e = py_float e' \<Longrightarrow>
     convert_items e row acc = convert_items e' row acc"
proof (induction row arbitrary: acc)
  case Nil
  show ?case by simp
next
  case (Cons p row)
  obtain field v where p: "p = (field, v)" by (cases p)
  show ?case
    using Cons convert_field_env [of e e' field v]
    by (cases "convert_field e' field v") (simp_all add: p)
qed

lemma row_to_feed_env:
  "py_int e = py_int e' \<Longrightarrow> py_float e = py_float e' \<Longrightarrow> row_to_feed e r = row_to_feed e' r"
  by (simp add: row_to_feed_def validate_csv_row_def convert_items_env [of e e'])

lemma load_rows_env:
  "py_int e = py_int e' \<Longrightarrow> py_float e = py_float e' \<Longrightarrow>
     load_rows e rows fs = load_rows e' rows fs"
proof (induction rows arbitrary: fs)
  case Nil
  show ?case by simp
next
  case (Cons r rows)
  show ?case
    using Cons row_to_feed_env [of e e' r]
    by (cases "row_to_feed e' r") simp_all
qed


lemma surplus_same: "row_to_feed surplus_env r = row_to_feed demo_env r"
  by (rule row_to_feed_env) (simp_all add: surplus_env_def)

lemma node_row_btc: "row_to_feed demo_env row_btc = Inr feed_btc"
  by (simp add: row_eval row_btc_def demo_env_def feed_btc_def char_eval)


lemma demo_row_btc: "row_to_feed surplus_env row_btc = Inr feed_btc"
  by (simp only: surplus_same node_row_btc)





text \<open>A row with a surplus cell ends the whole load: the feeds of the rows before it stay,
  the rows after it are not read.\<close>

lemma surplus_row_raises:
  "row_to_feed surplus_env row_surplus = Inl (AttributeError ''object has no attribute strip'')"
  unfolding surplus_same
  by (simp add: row_eval row_surplus_def row_btc_def demo_env_def char_eval)

lemma surplus_row_ends_load:
  "load_feeds surplus_env demo_service
     = (Inl (AttributeError ''object has no attribute strip''), demo_service\<lparr>feeds := [feed_btc]\<rparr>)"
proof -
  have "csv_file surplus_env = Some [row_btc, row_surplus, row_btc]"
    by (simp add: surplus_env_def)
  then show ?thesis
    by (simp add: load_feeds_def demo_row_btc surplus_row_raises)
qed




section \<open>The network identifier\<close>

lemma load_feeds_chain: "load_feeds (e\<lparr>chain_id := c\<rparr>) s = load_feeds e s"
proof -
  have "load_rows (e\<lparr>chain_id := c\<rparr>) rows [] = load_rows e rows []" for rows
    by (rule load_rows_env) simp_all
  then show ?thesis
    by (simp add: load_feeds_def split: option.splits)
qed

lemma initialize_chain: "initialize (e\<lparr>chain_id := c\<rparr>) s = initialize e s"
  by (auto simp add: initialize_def load_feeds_chain split: sum.splits prod.splits)

text \<open>
  C7, as the code has it. Building the chain identifier from an integer other than 43114
  raises \<open>ValueError\<close>, from 43114 it succeeds, and the identifier of the service is the
  constant 43114. The initialisation never reads the network identifier that the node
  reports: its outcome and the state it leaves are the same whatever the node reports,
  and so is the network information the service gives out.
\<close>

theorem chain_id_checks:
  "(v \<noteq> 43114 \<longrightarrow> (\<exists>m. ChainId v = Inl (ValueError m)))
   \<and> ChainId 43114 = Inr 43114
   \<and> AVALANCHE_CHAIN_ID = 43114
   \<and> initialize (e\<lparr>chain_id := c\<rparr>) s = initialize e s
   \<and> get_network_info (e\<lparr>chain_id := c\<rparr>) = get_network_info e"
  by (simp add: ChainId_def AVALANCHE_CHAIN_ID_def initialize_chain get_network_info_def)

lemma demo_initialize:
  "initialize demo_env demo_service = (Inr (), demo_service\<lparr>feeds := [feed_btc]\<rparr>)"
proof -
  have c: "csv_file demo_env = Some [row_btc]" "is_connected demo_env"
      "to_checksum_address demo_env MULTICALL3_ADDRESS = Inr MULTICALL3_ADDRESS"
      "eth_block_number demo_env = Inr 78"
    by (simp_all add: demo_env_def)
  have l: "load_feeds demo_env demo_service = (Inr (), demo_service\<lparr>feeds := [feed_btc]\<rparr>)"
    by (simp add: load_feeds_def c node_row_btc)
  show ?thesis
    by (simp add: initialize_def c l BlockNumber_def)
qed

theorem chain_id_checks_witness:
  "ChainId 1 = Inl (ValueError ''Invalid chain ID, expected 43114 for Avalanche C-Chain'')
   \<and> initialize (demo_env\<lparr>chain_id := 1\<rparr>) demo_service
       = (Inr (), demo_service\<lparr>feeds := [feed_btc]\<rparr>)"
  using chain_id_checks [where v = 1 and e = demo_env and c = 1 and s = demo_service]
    demo_initialize
  by (simp add: ChainId_def)

text \<open>
  C7 as the claim words it fails in its second half: against a connected node that
  reports the network identifier 1 the initialisation completes and loads the feeds.
\<close>

theorem initialize_wrong_chain_counterexample:
  "chain_id wrong_chain_env = 1 \<and> is_connected wrong_chain_env
   \<and> initialize wrong_chain_env demo_service = (Inr (), demo_service\<lparr>feeds := [feed_btc]\<rparr>)"
proof -
  have "initialize wrong_chain_env demo_service = initialize demo_env demo_service"
    unfolding wrong_chain_env_def by (rule initialize_chain)
  then show ?thesis
    by (simp add: demo_initialize) (simp add: wrong_chain_env_def demo_env_def)
qed

section \<open>The reserves snapshot\<close>

lemma py_max_Max: "xs \<noteq> [] \<Longrightarrow> py_max xs = Max (set xs)"
proof (cases xs)
  case Nil
  assume "xs \<noteq> []"
  with Nil show ?thesis by simp
next
  case (Cons x ys)
  have f: "(\<lambda>y m. if m < y then y else m) = (max :: string \<Rightarrow> string \<Rightarrow> string)"
    by (auto simp add: fun_eq_iff max_def)
  have "py_max (x # ys) = fold max ys x"
    by (simp add: foldl_conv_fold f)
  also have "\<dots> = Max (set (x # ys))"
    by (rule Max.set_eq_fold [symmetric])
  finally show ?thesis using Cons by simp
qed

text \<open>
  C8. Whatever list of reserve entries was decoded, the snapshot built from it (when the
  block number can be read) reports as \<open>totalAssets\<close> the number of these entries and as
  \<open>lastUpdated\<close> the greatest of their \<open>updatedAt\<close> strings, the strings being compared
  as strings, character by character; with no entry, \<open>totalAssets\<close> is 0 and
  \<open>lastUpdated\<close> is \<open>None\<close>.
\<close>

theorem reserves_summary:
  "get_proof_of_reserve_data e s = Inr por_data \<Longrightarrow> eth_block_number e = Inr b \<Longrightarrow>
     get_reserves_snapshot e s
       = Inr \<lparr>rs_timestamp = now_isoformat e, rs_blockNumber = str_int b,
              rs_totalReserves = por_data,
              summary = \<lparr>totalAssets = length por_data,
                         lastUpdated = (if por_data = [] then None
                                        else Some (Max (set (map por_updatedAt por_data))))\<rparr>\<rparr>"
  by (simp add: get_reserves_snapshot_def get_network_info_def py_max_Max)

lemma por_decode_1: "decode_reserve por_env feed_por [1] = Inr por_entry_1"
  by (simp add: decode_reserve_def por_env_def demo_env_def feed_por_def feed_btc_def
      por_entry_1_def price_2500 str_eval)

lemma por_decode_2: "decode_reserve por_env feed_por2 [2] = Inr por_entry_2"
  by (simp add: decode_reserve_def por_env_def demo_env_def feed_por2_def feed_por_def
      feed_btc_def por_entry_2_def price_3000 str_eval)

lemma por_feeds: "get_proof_of_reserve_feeds por_service = [feed_por, feed_por2]"
  by (simp add: get_proof_of_reserve_feeds_def por_service_def feed_por2_def feed_por_def
      feed_btc_def)

lemma por_data: "get_proof_of_reserve_data por_env por_service = Inr [por_entry_1, por_entry_2]"
proof -
  have c: "prepare_calls por_env [feed_por, feed_por2] []
      = Inr [(proxyAddress feed_por, latestRoundData_selector),
             (proxyAddress feed_por2, latestRoundData_selector)]"
    by (simp add: por_env_def demo_env_def)
  have a: "aggregate por_env [(proxyAddress feed_por, latestRoundData_selector),
             (proxyAddress feed_por2, latestRoundData_selector)] = Inr (80, [[1], [2]])"
    by (simp add: por_env_def)
  show ?thesis
    unfolding get_proof_of_reserve_data_def Let_def por_feeds c
    by (simp add: a por_decode_1 por_decode_2)
qed

text \<open>The comparison is that of strings, not of times or numbers.\<close>

lemma string_order_example:
  "Max (set [''1970-01-01T00:00:9+00:00'', ''1970-01-01T00:00:10+00:00''])
     = ''1970-01-01T00:00:9+00:00''"
  by (simp add: max_def)

theorem reserves_summary_witness:
  "get_proof_of_reserve_data por_env por_service = Inr [por_entry_1, por_entry_2]
   \<and> eth_block_number por_env = Inr 78
   \<and> get_reserves_snapshot por_env por_service
       = Inr \<lparr>rs_timestamp = ''2024-01-01T00:00:00+00:00'', rs_blockNumber = ''78'',
              rs_totalReserves = [por_entry_1, por_entry_2],
              summary = \<lparr>totalAssets = 2,
                         lastUpdated = Some ''1970-01-01T00:00:21+00:00''\<rparr>\<rparr>"
proof -
  have b: "eth_block_number por_env = Inr 78"
    by (simp add: por_env_def demo_env_def)
  have n: "now_isoformat por_env = ''2024-01-01T00:00:00+00:00''"
    by (simp add: por_env_def demo_env_def)
  have s: "str_int 78 = ''78''"
    by (simp add: str_eval)
  have m: "max (por_updatedAt por_entry_1) (por_updatedAt por_entry_2)
      = ''1970-01-01T00:00:21+00:00''"
    by (simp add: por_entry_1_def por_entry_2_def max_def)
  show ?thesis
    using reserves_summary [OF por_data b] por_data b
    by (simp add: n s m)
qed

section \<open>A failed reserve batch\<close>

text \<open>
  C10, as the code has it. When the batch call for the reserve feeds raises,
  \<open>get_proof_of_reserve_data\<close> returns the empty list. \<open>get_reserves_snapshot\<close> then reads
  the block number: if that read succeeds, the snapshot is a normal one with an empty
  reserve list, \<open>totalAssets\<close> 0 and \<open>lastUpdated\<close> \<open>None\<close>; if that read raises, its
  exception reaches the caller.
\<close>

theorem reserve_batch_failure:
  "prepare_calls e (get_proof_of_reserve_feeds s) [] = Inr calls \<Longrightarrow>
   aggregate e calls = Inl err \<Longrightarrow>
     get_proof_of_reserve_data e s = Inr []
     \<and> (\<forall>b. eth_block_number e = Inr b \<longrightarrow>
           get_reserves_snapshot e s
             = Inr \<lparr>rs_timestamp = now_isoformat e, rs_blockNumber = str_int b,
                    rs_totalReserves = [],
                    summary = \<lparr>totalAssets = 0, lastUpdated = None\<rparr>\<rparr>)
     \<and> (\<forall>err'. eth_block_number e = Inl err' \<longrightarrow> get_reserves_snapshot e s = Inl err')"
proof -
  assume c: "prepare_calls e (get_proof_of_reserve_feeds s) [] = Inr calls"
    and a: "aggregate e calls = Inl err"
  have d: "get_proof_of_reserve_data e s = Inr []"
    by (simp add: get_proof_of_reserve_data_def Let_def c a)
  show ?thesis
    by (simp add: d get_reserves_snapshot_def get_network_info_def)
qed

lemma batch_down_calls:
  "prepare_calls batch_down_env (get_proof_of_reserve_feeds por_service) []
      = Inr [(proxyAddress feed_por, latestRoundData_selector),
             (proxyAddress feed_por2, latestRoundData_selector)]"
  unfolding por_feeds by (simp add: batch_down_env_def demo_env_def)

lemma down_calls:
  "prepare_calls down_env (get_proof_of_reserve_feeds por_service) []
      = Inr [(proxyAddress feed_por, latestRoundData_selector),
             (proxyAddress feed_por2, latestRoundData_selector)]"
  unfolding por_feeds by (simp add: down_env_def demo_env_def)

theorem reserve_batch_failure_witness:
  "aggregate batch_down_env [(proxyAddress feed_por, latestRoundData_selector),
             (proxyAddress feed_por2, latestRoundData_selector)]
       = Inl (Web3Error ''execution reverted'')
   \<and> eth_block_number batch_down_env = Inr 78
   \<and> get_proof_of_reserve_data batch_down_env por_service = Inr []
   \<and> get_reserves_snapshot batch_down_env por_service
       = Inr \<lparr>rs_timestamp = ''2024-01-01T00:00:00+00:00'', rs_blockNumber = ''78'',
              rs_totalReserves = [],
              summary = \<lparr>totalAssets = 0, lastUpdated = None\<rparr>\<rparr>"
proof -
  have a: "aggregate batch_down_env [(proxyAddress feed_por, latestRoundData_selector),
             (proxyAddress feed_por2, latestRoundData_selector)]
       = Inl (Web3Error ''execution reverted'')"
    by (simp add: batch_down_env_def)
  have b: "eth_block_number batch_down_env = Inr 78"
      "now_isoformat batch_down_env = ''2024-01-01T00:00:00+00:00''"
    by (simp_all add: batch_down_env_def demo_env_def)
  have s: "str_int 78 = ''78''"
    by (simp add: str_eval)
  show ?thesis
    using reserve_batch_failure [OF batch_down_calls a] a b
    by (simp add: s)
qed

text \<open>
  C10 as the claim words it fails when the node does not answer at all: the batch call
  raises and is swallowed, the read of the block number raises as well, and the snapshot
  query hands that exception to its caller.
\<close>

theorem reserve_snapshot_error_counterexample:
  "aggregate down_env [(proxyAddress feed_por, latestRoundData_selector),
             (proxyAddress feed_por2, latestRoundData_selector)]
       = Inl (Web3Error ''connection refused'')
   \<and> get_proof_of_reserve_data down_env por_service = Inr []
   \<and> get_reserves_snapshot down_env por_service = Inl (Web3Error ''connection refused'')"
proof -
  have a: "aggregate down_env [(proxyAddress feed_por, latestRoundData_selector),
             (proxyAddress feed_por2, latestRoundData_selector)]
       = Inl (Web3Error ''connection refused'')"
    by (simp add: down_env_def)
  have d: "get_proof_of_reserve_data down_env por_service = Inr []"
    by (simp add: get_proof_of_reserve_data_def Let_def down_calls a)
  have b: "eth_block_number down_env = Inl (Web3Error ''connection refused'')"
    by (simp add: down_env_def)
  show ?thesis
    by (simp add: a d get_reserves_snapshot_def get_network_info_def b)
qed

section \<open>What the per-feed queries return\<close>

lemma unknown_symbol_None:
  "get_feed s sy = None \<Longrightarrow>
     get_feed_description e s sy = None \<and> get_feed_version e s sy = None
     \<and> get_feed_decimals e s sy = None \<and> get_round_data e s sy rid = None"
  by (simp add: get_feed_description_def get_feed_version_def get_feed_decimals_def
      get_round_data_def)

lemma failed_read_None:
  "get_feed s sy = Some feed \<Longrightarrow> to_checksum_address e (proxyAddress feed) = Inr a \<Longrightarrow>
     (call_description e a = Inl err \<longrightarrow> get_feed_description e s sy = None)
     \<and> (call_version e a = Inl err \<longrightarrow> get_feed_version e s sy = None)
     \<and> (call_decimals e a = Inl err \<longrightarrow> get_feed_decimals e s sy = None)
     \<and> (py_int e rid = Some i \<and> call_getRoundData e a i = Inl err
           \<longrightarrow> get_round_data e s sy rid = None)"
  by (simp add: get_feed_description_def get_feed_version_def get_feed_decimals_def
      get_round_data_def)

lemma checksum_failure_None:
  "get_feed s sy = Some feed \<Longrightarrow> to_checksum_address e (proxyAddress feed) = Inl err \<Longrightarrow>
     get_feed_description e s sy = None \<and> get_feed_version e s sy = None
     \<and> get_feed_decimals e s sy = None \<and> get_round_data e s sy rid = None"
  by (simp add: get_feed_description_def get_feed_version_def get_feed_decimals_def
      get_round_data_def)

lemma description_Some:
  "get_feed_description e s sy = Some d \<Longrightarrow>
     \<exists>feed. get_feed s sy = Some feed \<and> map_of d ''symbol'' = Some (PyStr (symbol feed))
        \<and> map_of d ''proxyAddress'' = Some (PyStr (proxyAddress feed))"
  by (auto simp add: get_feed_description_def bind_result_Inr split: option.splits sum.splits)

lemma version_Some:
  "get_feed_version e s sy = Some d \<Longrightarrow>
     \<exists>feed. get_feed s sy = Some feed \<and> map_of d ''symbol'' = Some (PyStr (symbol feed))
        \<and> map_of d ''proxyAddress'' = Some (PyStr (proxyAddress feed))"
  by (auto simp add: get_feed_version_def bind_result_Inr split: option.splits sum.splits)

lemma decimals_Some:
  "get_feed_decimals e s sy = Some d \<Longrightarrow>
     \<exists>feed. get_feed s sy = Some feed \<and> map_of d ''symbol'' = Some (PyStr (symbol feed))
        \<and> map_of d ''proxyAddress'' = Some (PyStr (proxyAddress feed))"
  by (auto simp add: get_feed_decimals_def bind_result_Inr split: option.splits sum.splits)

lemma round_data_Some:
  "get_round_data e s sy rid = Some d \<Longrightarrow>
     \<exists>feed. get_feed s sy = Some feed \<and> map_of d ''symbol'' = Some (PyStr (symbol feed))
        \<and> map_of d ''decimals'' = Some (PyInt (int (decimals feed)))
        \<and> map_of d ''proxyAddress'' = None"
  by (auto simp add: get_round_data_def bind_result_Inr split: option.splits sum.splits)

lemma bad_round_id_None:
  "py_int e rid = None \<Longrightarrow> get_round_data e s sy rid = None"
  by (auto simp add: get_round_data_def bind_result_Inr split: option.splits sum.splits)

text \<open>
  C9, as the code has it. Each of the four queries returns \<open>None\<close> when the symbol
  resolves to no feed, and \<open>None\<close> when the contract read raises (for the round query
  also when the round identifier is not an integer). A description, version or decimals
  result carries the symbol and the proxy address of the resolved feed. A round result
  carries the symbol and the decimals of the resolved feed and has no key
  \<open>proxyAddress\<close>.
\<close>

theorem adapter_queries:
  "(get_feed s sy = None \<longrightarrow>
      get_feed_description e s sy = None \<and> get_feed_version e s sy = None
      \<and> get_feed_decimals e s sy = None \<and> get_round_data e s sy rid = None)
   \<and> (\<forall>feed a err. get_feed s sy = Some feed
         \<and> to_checksum_address e (proxyAddress feed) = Inr a \<longrightarrow>
        (call_description e a = Inl err \<longrightarrow> get_feed_description e s sy = None)
        \<and> (call_version e a = Inl err \<longrightarrow> get_feed_version e s sy = None)
        \<and> (call_decimals e a = Inl err \<longrightarrow> get_feed_decimals e s sy = None)
        \<and> (\<forall>i. py_int e rid = Some i \<and> call_getRoundData e a i = Inl err
              \<longrightarrow> get_round_data e s sy rid = None))
   \<and> (py_int e rid = None \<longrightarrow> get_round_data e s sy rid = None)
   \<and> (\<forall>d. get_feed_description e s sy = Some d \<longrightarrow>
         (\<exists>feed. get_feed s sy = Some feed \<and> map_of d ''symbol'' = Some (PyStr (symbol feed))
            \<and> map_of d ''proxyAddress'' = Some (PyStr (proxyAddress feed))))
   \<and> (\<forall>d. get_feed_version e s sy = Some d \<longrightarrow>
         (\<exists>feed. get_feed s sy = Some feed \<and> map_of d ''symbol'' = Some (PyStr (symbol feed))
            \<and> map_of d ''proxyAddress'' = Some (PyStr (proxyAddress feed))))
   \<and> (\<forall>d. get_feed_decimals e s sy = Some d \<longrightarrow>
         (\<exists>feed. get_feed s sy = Some feed \<and> map_of d ''symbol'' = Some (PyStr (symbol feed))
            \<and> map_of d ''proxyAddress'' = Some (PyStr (proxyAddress feed))))
   \<and> (\<forall>d. get_round_data e s sy rid = Some d \<longrightarrow>
         (\<exists>feed. get_feed s sy = Some feed \<and> map_of d ''symbol'' = Some (PyStr (symbol feed))
            \<and> map_of d ''decimals'' = Some (PyInt (int (decimals feed)))
            \<and> map_of d ''proxyAddress'' = None))"
proof -
  have 1: "get_feed s sy = None \<longrightarrow>
      get_feed_description e s sy = None \<and> get_feed_version e s sy = None
      \<and> get_feed_decimals e s sy = None \<and> get_round_data e s sy rid = None"
    using unknown_symbol_None by blast
  have 2: "\<forall>feed a err. get_feed s sy = Some feed
         \<and> to_checksum_address e (proxyAddress feed) = Inr a \<longrightarrow>
        (call_description e a = Inl err \<longrightarrow> get_feed_description e s sy = None)
        \<and> (call_version e a = Inl err \<longrightarrow> get_feed_version e s sy = None)
        \<and> (call_decimals e a = Inl err \<longrightarrow> get_feed_decimals e s sy = None)
        \<and> (\<forall>i. py_int e rid = Some i \<and> call_getRoundData e a i = Inl err
              \<longrightarrow> get_round_data e s sy rid = None)"
    using failed_read_None [of s sy _ e] by blast
  have 3: "py_int e rid = None \<longrightarrow> get_round_data e s sy rid = None"
    using bad_round_id_None by blast
  show ?thesis
    using 1 2 3 description_Some [of e s sy] version_Some [of e s sy] decimals_Some [of e s sy]
      round_data_Some [of e s sy rid]
    by (intro conjI allI impI) blast+
qed

lemma btc_lookup: "get_feed demo_service ''BTCUSD'' = Some feed_btc"
  by (simp add: get_feed_def demo_service_def feed_btc_def symbol_clean_def replace_def char_eval)

lemma no_lookup: "get_feed demo_service ''DOGEUSD'' = None"
  by (simp add: get_feed_def demo_service_def feed_btc_def feed_eth_def feed_avax_def
      symbol_clean_def replace_def char_eval)

lemma btc_round_5: "get_round_data demo_env demo_service ''BTCUSD'' ''5'' = Some round_5"
proof -
  have e: "to_checksum_address demo_env (proxyAddress feed_btc) = Inr (proxyAddress feed_btc)"
      "py_int demo_env ''5'' = Some 5"
      "call_getRoundData demo_env (proxyAddress feed_btc) 5 = Inr (5, 250000000000, 10, 20, 5)"
      "utc_isoformat demo_env 20 = Inr ''1970-01-01T00:00:20+00:00''"
    by (simp_all add: demo_env_def str_eval)
  have f: "decimals feed_btc = 8" "symbol feed_btc = ''BTCUSD''"
    by (simp_all add: feed_btc_def)
  show ?thesis
    unfolding get_round_data_def btc_lookup
    by (simp add: e f price_2500 round_5_def str_eval)
qed

lemma btc_description:
  "get_feed_description demo_env demo_service ''BTCUSD''
     = Some [(''symbol'', PyStr ''BTCUSD''), (''description'', PyStr ''BTC / USD''),
             (''proxyAddress'', PyStr ''0xa77b5d170f3aec2f72ca06490a7b9383a70ae5eb'')]"
  unfolding get_feed_description_def btc_lookup
  by (simp add: demo_env_def feed_btc_def)

theorem adapter_queries_witness:
  "get_feed demo_service ''DOGEUSD'' = None
   \<and> get_feed_version demo_env demo_service ''DOGEUSD'' = None
   \<and> get_feed demo_service ''BTCUSD'' = Some feed_btc
   \<and> call_decimals down_env (proxyAddress feed_btc) = Inl (Web3Error ''connection refused'')
   \<and> get_feed_decimals down_env demo_service ''BTCUSD'' = None
   \<and> py_int down_env ''5'' = Some 5
   \<and> call_getRoundData down_env (proxyAddress feed_btc) 5 = Inl (Web3Error ''connection refused'')
   \<and> get_round_data down_env demo_service ''BTCUSD'' ''5'' = None
   \<and> get_feed_description demo_env demo_service ''BTCUSD''
       = Some [(''symbol'', PyStr ''BTCUSD''), (''description'', PyStr ''BTC / USD''),
               (''proxyAddress'', PyStr ''0xa77b5d170f3aec2f72ca06490a7b9383a70ae5eb'')]
   \<and> symbol feed_btc = ''BTCUSD''
   \<and> proxyAddress feed_btc = ''0xa77b5d170f3aec2f72ca06490a7b9383a70ae5eb''"
proof -
  have d: "to_checksum_address down_env (proxyAddress feed_btc) = Inr (proxyAddress feed_btc)"
      "call_decimals down_env (proxyAddress feed_btc) = Inl (Web3Error ''connection refused'')"
      "py_int down_env ''5'' = Some 5"
      "call_getRoundData down_env (proxyAddress feed_btc) 5 = Inl (Web3Error ''connection refused'')"
    by (simp_all add: down_env_def demo_env_def)
  have f: "symbol feed_btc = ''BTCUSD''"
      "proxyAddress feed_btc = ''0xa77b5d170f3aec2f72ca06490a7b9383a70ae5eb''"
    by (simp_all add: feed_btc_def)
  have 1: "get_feed_version demo_env demo_service ''DOGEUSD'' = None"
    using adapter_queries [where s = demo_service and sy = "''DOGEUSD''" and e = demo_env
        and rid = "''5''"] no_lookup
    by blast
  note t = adapter_queries [where s = demo_service and sy = "''BTCUSD''" and e = down_env
        and rid = "''5''"]
  have 2: "get_feed_decimals down_env demo_service ''BTCUSD'' = None"
    using t btc_lookup d(1,2) by blast
  have 3: "get_round_data down_env demo_service ''BTCUSD'' ''5'' = None"
    using t btc_lookup d(1,3,4) by blast
  show ?thesis
    using no_lookup 1 btc_lookup d(2,3,4) 2 3 btc_description f by (intro conjI)
qed

text \<open>
  C9 as the claim words it fails for the round query: the dictionary it returns for
  round 5 of BTC / USD has the symbol and no proxy address.
\<close>

theorem round_data_no_proxy_counterexample:
  "get_round_data demo_env demo_service ''BTCUSD'' ''5'' = Some round_5
   \<and> map_of round_5 ''symbol'' = Some (PyStr ''BTCUSD'')
   \<and> map_of round_5 ''proxyAddress'' = None"
  by (simp add: btc_round_5) (simp add: round_5_def)

end
